theory Spec2Isabelle
  imports Complex_Main
begin

section \<open>Tri-lighting: three point lights around the active object\<close>

text \<open>
  A shallow embedding of \<^verbatim>\<open>OBJECT_OT_TriLighting.execute\<close> of
  \<^verbatim>\<open>lighting_tri_lights.py\<close>. Python floats are modelled by the reals (exact
  arithmetic), Python integers by \<open>int\<close>. The host scene (\<^verbatim>\<open>bpy.data\<close>, the
  collection, the scene camera, the operator's reports and the console) is an explicit
  state that every operation passes on; an exception is the left summand of the result,
  returned together with the state reached when it was raised. A datablock keeps the
  name it was created with (the host's renaming of duplicates is left out).
\<close>

subsection \<open>Operator properties\<close>

datatype light_type = POINT | SUN | SPOT | AREA

datatype light_shape = SQUARE | RECTANGLE | DISK | ELLIPSE

record tri_lighting =
  height :: real
  distance :: real
  energy :: int
  contrast :: int
  leftangle :: int
  rightangle :: int
  backangle :: int
  primarytype :: light_type
  secondarytype :: light_type
  key_light_shape :: light_shape
  secondary_light_shape :: light_shape
  key_light_size :: real
  secondary_light_size :: real
  shadow_soft_size_key :: real
  shadow_soft_size_fill :: real
  spot_size_key :: real
  spot_blend_key :: real
  spot_size_fill :: real
  spot_blend_fill :: real

subsection \<open>The host scene\<close>

text \<open>\<^verbatim>\<open>mathutils.Vector\<close> with its three components.\<close>

record vector =
  vec_x :: real
  vec_y :: real
  vec_z :: real

text \<open>
  A light datablock as \<^verbatim>\<open>bpy.data.lights.new\<close> returns it. Every field but
  the name and the type is \<open>None\<close> until the operator assigns it: \<open>None\<close> stands
  for the host's default, left untouched.
\<close>

record light =
  l_name :: string
  l_type :: light_type
  l_energy :: "real option"
  l_shape :: "light_shape option"
  l_size :: "real option"
  l_spot_size :: "real option"
  l_spot_blend :: "real option"
  l_shadow_soft_size :: "real option"

text \<open>
  A constraint of an object; its target is a reference to an object (an index into
  \<^verbatim>\<open>bpy.data.objects\<close>), its axes are \<open>None\<close> until assigned.
\<close>

record constraint =
  c_type :: string
  c_target :: "nat option"
  c_track_axis :: "string option"
  c_up_axis :: "string option"

datatype object_data = Camera_data nat | Light_data nat | Other_data

record object =
  o_name :: string
  o_data :: object_data
  o_location :: vector
  o_constraints :: "constraint list"

text \<open>
  The mutable part of the host: the datablocks of \<^verbatim>\<open>bpy.data\<close> (a reference
  to one is its index in its list, entities are only ever appended), the objects linked
  to \<^verbatim>\<open>context.collection\<close>, \<^verbatim>\<open>scene.camera\<close>, whether the viewport looks
  through the camera, the operator's reports and the lines printed to the console.
\<close>

record blend =
  cameras :: "string list"
  lights :: "light list"
  objects :: "object list"
  collection_objects :: "nat list"
  scene_camera :: "nat option"
  camera_view :: bool
  reports :: "(string \<times> string) list"
  console :: "string list"

text \<open>
  The host calls of \<^verbatim>\<open>execute\<close> that create or link an entity or run an
  operator, named by the call and the entity's name. The context says for each of them
  whether the host raises there, and with which message.
\<close>

datatype host_call =
    Cameras_new
  | Objects_new string
  | Objects_link string
  | Camera_to_view
  | View_camera
  | Lights_new string
  | Constraints_new string

record space =
  space_type :: string
  space_camera :: "nat option"

text \<open>
  What \<^verbatim>\<open>execute\<close> reads of the context: \<^verbatim>\<open>context.space_data\<close> (which may
  be \<^verbatim>\<open>None\<close>), the active object of the view layer (which may be \<^verbatim>\<open>None\<close>),
  the viewpoint that \<^verbatim>\<open>camera_to_view\<close> moves the camera to, and the host's
  failures.
\<close>

record bpy_context =
  space_data :: "space option"
  active :: "nat option"
  view_location :: vector
  raises :: "host_call \<Rightarrow> string option"

datatype status = FINISHED | CANCELLED

subsection \<open>Running with state and exceptions\<close>

type_synonym 'a run = "blend \<Rightarrow> (string + 'a) \<times> blend"

definition return :: "'a \<Rightarrow> 'a run" where
  "return v s = (Inr v, s)"

definition raise :: "string \<Rightarrow> 'a run" where
  "raise e s = (Inl e, s)"

definition and_then :: "'a run \<Rightarrow> ('a \<Rightarrow> 'b run) \<Rightarrow> 'b run" where
  "and_then m k s = (case m s of (Inl e, s') \<Rightarrow> (Inl e, s') | (Inr v, s') \<Rightarrow> k v s')"

definition host :: "bpy_context \<Rightarrow> host_call \<Rightarrow> 'a run \<Rightarrow> 'a run" where
  "host ctx call m = (case raises ctx call of Some e \<Rightarrow> raise e | None \<Rightarrow> m)"

subsection \<open>Host operations\<close>

definition cameras_new :: "string \<Rightarrow> nat run" where
  "cameras_new name s = (Inr (length (cameras s)), s\<lparr>cameras := cameras s @ [name]\<rparr>)"

definition lights_new :: "string \<Rightarrow> light_type \<Rightarrow> nat run" where
  "lights_new name ty s =
     (Inr (length (lights s)),
      s\<lparr>lights := lights s @
         [\<lparr>l_name = name, l_type = ty, l_energy = None, l_shape = None, l_size = None,
           l_spot_size = None, l_spot_blend = None, l_shadow_soft_size = None\<rparr>]\<rparr>)"

definition light_set :: "nat \<Rightarrow> (light \<Rightarrow> light) \<Rightarrow> unit run" where
  "light_set d f s = (Inr (), s\<lparr>lights := (lights s)[d := f (lights s ! d)]\<rparr>)"

definition objects_new :: "string \<Rightarrow> object_data \<Rightarrow> nat run" where
  "objects_new name dat s =
     (Inr (length (objects s)),
      s\<lparr>objects := objects s @
         [\<lparr>o_name = name, o_data = dat,
           o_location = \<lparr>vec_x = 0, vec_y = 0, vec_z = 0\<rparr>, o_constraints = []\<rparr>]\<rparr>)"

definition objects_link :: "nat \<Rightarrow> unit run" where
  "objects_link ob s = (Inr (), s\<lparr>collection_objects := collection_objects s @ [ob]\<rparr>)"

definition object_set :: "nat \<Rightarrow> (object \<Rightarrow> object) \<Rightarrow> unit run" where
  "object_set ob f s = (Inr (), s\<lparr>objects := (objects s)[ob := f (objects s ! ob)]\<rparr>)"

definition constraints_new :: "nat \<Rightarrow> string \<Rightarrow> unit run" where
  "constraints_new ob ty =
     object_set ob (\<lambda>b. b\<lparr>o_constraints := o_constraints b @
       [\<lparr>c_type = ty, c_target = None, c_track_axis = None, c_up_axis = None\<rparr>]\<rparr>)"

text \<open>Assignment to a field of the constraint created last on the object.\<close>

definition constraint_set :: "nat \<Rightarrow> (constraint \<Rightarrow> constraint) \<Rightarrow> unit run" where
  "constraint_set ob f =
     object_set ob (\<lambda>b. b\<lparr>o_constraints := butlast (o_constraints b) @
       (case o_constraints b of [] \<Rightarrow> [] | _ # _ \<Rightarrow> [f (last (o_constraints b))])\<rparr>)"

text \<open>
  \<^verbatim>\<open>bpy.ops.view3d.camera_to_view()\<close> moves the scene camera to the viewpoint and
  looks through it; \<^verbatim>\<open>bpy.ops.view3d.view_camera()\<close> toggles the camera view.
\<close>

definition camera_to_view :: "bpy_context \<Rightarrow> unit run" where
  "camera_to_view ctx s =
     (case scene_camera s of
        None \<Rightarrow> (Inl ''RuntimeError: Operator bpy.ops.view3d.camera_to_view.poll() failed'', s)
      | Some c \<Rightarrow>
          (Inr (), s\<lparr>objects := (objects s)[c := (objects s ! c)\<lparr>o_location := view_location ctx\<rparr>],
                    camera_view := True\<rparr>))"

definition view_camera :: "unit run" where
  "view_camera s = (Inr (), s\<lparr>camera_view := \<not> camera_view s\<rparr>)"

text \<open>Reading \<^verbatim>\<open>.location\<close> through a reference; a dangling reference raises.\<close>

definition location_of :: "nat \<Rightarrow> vector run" where
  "location_of ob s =
     (if ob < length (objects s) then (Inr (o_location (objects s ! ob)), s)
      else (Inl ''ReferenceError: StructRNA of type Object has been removed'', s))"

definition report :: "string \<Rightarrow> string \<Rightarrow> unit run" where
  "report level msg s = (Inr (), s\<lparr>reports := reports s @ [(level, msg)]\<rparr>)"

subsection \<open>Arithmetic of the placement\<close>

definition radians :: "real \<Rightarrow> real" where
  "radians d = d * pi / 180"

definition vec_sub :: "vector \<Rightarrow> vector \<Rightarrow> vector" where
  "vec_sub a b = \<lparr>vec_x = vec_x a - vec_x b, vec_y = vec_y a - vec_y b, vec_z = vec_z a - vec_z b\<rparr>"

definition vec_scale :: "real \<Rightarrow> vector \<Rightarrow> vector" where
  "vec_scale k v = \<lparr>vec_x = k * vec_x v, vec_y = k * vec_y v, vec_z = k * vec_z v\<rparr>"

text \<open>Lines 274 to 278: the length of the delta vector.\<close>

definition vector_length :: "vector \<Rightarrow> real" where
  "vector_length d = sqrt ((vec_x d)\<^sup>2 + (vec_y d)\<^sup>2 + (vec_z d)\<^sup>2)"

text \<open>
  Lines 289 to 294 (and 323 to 328, 353 to 357): a copy of the vector whose x and y are
  assigned from the original's x and y; the angle is in radians.
\<close>

definition rotate_xy :: "real \<Rightarrow> vector \<Rightarrow> vector" where
  "rotate_xy a v =
     v\<lparr>vec_x := cos a * vec_x v + (- sin a * vec_y v),
       vec_y := sin a * vec_x v + cos a * vec_y v\<rparr>"

text \<open>Lines 258 to 265: (keyEnergy, backEnergy, fillEnergy).\<close>

definition energies :: "tri_lighting \<Rightarrow> real \<times> real \<times> real" where
  "energies self =
     (if contrast self > 0
      then (of_int (energy self),
            (of_int (energy self) / 100) * of_int \<bar>contrast self\<bar>,
            (of_int (energy self) / 100) * of_int \<bar>contrast self\<bar>)
      else ((of_int (energy self) / 100) * of_int \<bar>contrast self\<bar>,
            of_int (energy self),
            of_int (energy self)))"

subsection \<open>The operator\<close>

text \<open>Lines 237 to 253: the camera of the view or of the scene, created when there is none.\<close>

definition new_camera :: "bpy_context \<Rightarrow> nat run" where
  "new_camera ctx =
     and_then (host ctx Cameras_new (cameras_new ''Camera'')) (\<lambda>cam_data.
     and_then (host ctx (Objects_new ''Camera'') (objects_new ''Camera'' (Camera_data cam_data))) (\<lambda>cam_obj.
     and_then (host ctx (Objects_link ''Camera'') (objects_link cam_obj)) (\<lambda>_.
     and_then (\<lambda>s. (Inr (), s\<lparr>scene_camera := Some cam_obj\<rparr>)) (\<lambda>_.
     and_then (host ctx Camera_to_view (camera_to_view ctx)) (\<lambda>_.
     and_then (host ctx View_camera view_camera) (\<lambda>_.
     return cam_obj))))))"

definition get_camera :: "bpy_context \<Rightarrow> nat run" where
  "get_camera ctx s =
     (case space_data ctx of
        None \<Rightarrow> (Inl ''AttributeError: NoneType object has no attribute type'', s)
      | Some view \<Rightarrow>
          (case (if space_type view = ''VIEW_3D'' then space_camera view else scene_camera s) of
             Some camera \<Rightarrow> (Inr camera, s)
           | None \<Rightarrow> new_camera ctx s))"

text \<open>
  Lines 288 to 320, 322 to 350 and 352 to 378: the three blocks of the source are the
  same text up to the name, the angle, the energy and the parameter set, which are the
  arguments here.
\<close>

definition add_lamp ::
  "bpy_context \<Rightarrow> tri_lighting \<Rightarrow> string \<Rightarrow> real \<Rightarrow> light_type \<Rightarrow> real \<Rightarrow> light_shape \<Rightarrow> real \<Rightarrow>
   real \<Rightarrow> real \<Rightarrow> real \<Rightarrow> vector \<Rightarrow> vector \<Rightarrow> nat \<Rightarrow> unit run" where
  "add_lamp ctx self name angle ty en shp sz spot_size spot_blend shadow single_vector obj_position obj =
     (let single = rotate_xy (radians angle) single_vector;
          px = vec_x obj_position + distance self * vec_x single;
          py = vec_y obj_position + distance self * vec_y single
      in
     and_then (host ctx (Lights_new name) (lights_new name ty)) (\<lambda>dat.
     and_then (light_set dat (\<lambda>l. l\<lparr>l_energy := Some en\<rparr>)) (\<lambda>_.
     and_then (if ty = AREA
               then light_set dat (\<lambda>l. l\<lparr>l_shape := Some shp, l_size := Some sz\<rparr>)
               else return ()) (\<lambda>_.
     and_then (if ty = SPOT
               then light_set dat (\<lambda>l. l\<lparr>l_spot_size := Some (radians spot_size),
                                          l_spot_blend := Some spot_blend\<rparr>)
               else return ()) (\<lambda>_.
     and_then (if ty = POINT \<or> ty = SPOT
               then light_set dat (\<lambda>l. l\<lparr>l_shadow_soft_size := Some shadow\<rparr>)
               else return ()) (\<lambda>_.
     and_then (host ctx (Objects_new name) (objects_new name (Light_data dat))) (\<lambda>lamp.
     and_then (host ctx (Objects_link name) (objects_link lamp)) (\<lambda>_.
     and_then (object_set lamp (\<lambda>b. b\<lparr>o_location := \<lparr>vec_x = px, vec_y = py, vec_z = height self\<rparr>\<rparr>)) (\<lambda>_.
     and_then (host ctx (Constraints_new name) (constraints_new lamp ''TRACK_TO'')) (\<lambda>_.
     and_then (constraint_set lamp (\<lambda>c. c\<lparr>c_target := Some obj\<rparr>)) (\<lambda>_.
     and_then (constraint_set lamp (\<lambda>c. c\<lparr>c_track_axis := Some ''TRACK_NEGATIVE_Z''\<rparr>)) (\<lambda>_.
     constraint_set lamp (\<lambda>c. c\<lparr>c_up_axis := Some ''UP_Y''\<rparr>)))))))))))))"

text \<open>Lines 270 to 378, after the camera and the energies: the check and the three lamps.\<close>

definition place_lamps ::
  "bpy_context \<Rightarrow> tri_lighting \<Rightarrow> nat \<Rightarrow> vector \<Rightarrow> vector \<Rightarrow> status run" where
  "place_lamps ctx self obj obj_position cam_position =
     (case energies self of (keyEnergy, backEnergy, fillEnergy) \<Rightarrow>
      let delta_position = vec_sub cam_position obj_position in
      if vector_length delta_position = 0
      then and_then (report ''WARNING'' ''Operation Cancelled. No viable object in the scene'')
             (\<lambda>_. return CANCELLED)
      else
        let single_vector = vec_scale (1 / vector_length delta_position) delta_position in
        and_then (add_lamp ctx self ''TriLamp-Back'' (of_int (backangle self)) (secondarytype self)
                    backEnergy (secondary_light_shape self) (secondary_light_size self)
                    (spot_size_fill self) (spot_blend_fill self) (shadow_soft_size_fill self)
                    single_vector obj_position obj) (\<lambda>_.
        and_then (add_lamp ctx self ''TriLamp-Fill'' (of_int (rightangle self)) (secondarytype self)
                    fillEnergy (secondary_light_shape self) (secondary_light_size self)
                    (spot_size_fill self) (spot_blend_fill self) (shadow_soft_size_fill self)
                    single_vector obj_position obj) (\<lambda>_.
        and_then (add_lamp ctx self ''TriLamp-Key'' (of_int (- leftangle self)) (primarytype self)
                    keyEnergy (key_light_shape self) (key_light_size self)
                    (spot_size_key self) (spot_blend_key self) (shadow_soft_size_key self)
                    single_vector obj_position obj) (\<lambda>_.
        return FINISHED))))"

text \<open>The body of the \<^verbatim>\<open>try\<close> statement.\<close>

definition execute_try :: "tri_lighting \<Rightarrow> bpy_context \<Rightarrow> status run" where
  "execute_try self ctx =
     and_then (get_camera ctx) (\<lambda>camera.
       case active ctx of
         None \<Rightarrow> raise ''AttributeError: NoneType object has no attribute location''
       | Some obj \<Rightarrow>
           and_then (location_of obj) (\<lambda>obj_position.
           and_then (location_of camera) (\<lambda>cam_position.
           place_lamps ctx self obj obj_position cam_position)))"

text \<open>Lines 380 to 387: what the handler prints for the exception \<open>e\<close>.\<close>

definition console_message :: "string \<Rightarrow> string" where
  "console_message e =
     [CHR 0x0A] @ ''[Add Advanced  Objects]'' @ [CHR 0x0A] @
     ''Operator: object.trilighting'' @ [CHR 0x0A] @ ''Error: '' @ e"

definition execute :: "tri_lighting \<Rightarrow> bpy_context \<Rightarrow> blend \<Rightarrow> status \<times> blend" where
  "execute self ctx s =
     (case execute_try self ctx s of
        (Inr st, s') \<Rightarrow> (st, s')
      | (Inl e, s') \<Rightarrow>
          (CANCELLED,
           s'\<lparr>reports := reports s' @
                 [(''WARNING'', ''Some operations could not be performed (See Console for more info)'')],
              console := console s' @ [console_message e]\<rparr>))"

subsection \<open>Summaries of the effects\<close>

text \<open>
  What a run leaves behind, written as values: the datablock and the object of one lamp,
  the state after the three lamps, and the state after a camera was created. The lemmas
  below prove that the operations above compute them.
\<close>

definition lamp_light ::
  "string \<Rightarrow> light_type \<Rightarrow> real \<Rightarrow> light_shape \<Rightarrow> real \<Rightarrow> real \<Rightarrow> real \<Rightarrow> real \<Rightarrow> light" where
  "lamp_light name ty en shp sz spot_size spot_blend shadow =
     \<lparr>l_name = name, l_type = ty, l_energy = Some en,
      l_shape = (if ty = AREA then Some shp else None),
      l_size = (if ty = AREA then Some sz else None),
      l_spot_size = (if ty = SPOT then Some (radians spot_size) else None),
      l_spot_blend = (if ty = SPOT then Some spot_blend else None),
      l_shadow_soft_size = (if ty = POINT \<or> ty = SPOT then Some shadow else None)\<rparr>"

definition lamp_location :: "tri_lighting \<Rightarrow> real \<Rightarrow> vector \<Rightarrow> vector \<Rightarrow> vector" where
  "lamp_location self angle single_vector obj_position =
     \<lparr>vec_x = vec_x obj_position + distance self * vec_x (rotate_xy (radians angle) single_vector),
      vec_y = vec_y obj_position + distance self * vec_y (rotate_xy (radians angle) single_vector),
      vec_z = height self\<rparr>"

definition lamp_object :: "string \<Rightarrow> nat \<Rightarrow> vector \<Rightarrow> constraint list \<Rightarrow> object" where
  "lamp_object name dat loc cs = \<lparr>o_name = name, o_data = Light_data dat, o_location = loc, o_constraints = cs\<rparr>"

definition track_to :: "nat \<Rightarrow> constraint" where
  "track_to obj = \<lparr>c_type = ''TRACK_TO'', c_target = Some obj,
      c_track_axis = Some ''TRACK_NEGATIVE_Z'', c_up_axis = Some ''UP_Y''\<rparr>"

definition back_light :: "tri_lighting \<Rightarrow> light" where
  "back_light self =
     lamp_light ''TriLamp-Back'' (secondarytype self) (fst (snd (energies self)))
       (secondary_light_shape self) (secondary_light_size self)
       (spot_size_fill self) (spot_blend_fill self) (shadow_soft_size_fill self)"

definition fill_light :: "tri_lighting \<Rightarrow> light" where
  "fill_light self =
     lamp_light ''TriLamp-Fill'' (secondarytype self) (snd (snd (energies self)))
       (secondary_light_shape self) (secondary_light_size self)
       (spot_size_fill self) (spot_blend_fill self) (shadow_soft_size_fill self)"

definition key_light :: "tri_lighting \<Rightarrow> light" where
  "key_light self =
     lamp_light ''TriLamp-Key'' (primarytype self) (fst (energies self))
       (key_light_shape self) (key_light_size self)
       (spot_size_key self) (spot_blend_key self) (shadow_soft_size_key self)"

definition single_vector_of :: "vector \<Rightarrow> vector \<Rightarrow> vector" where
  "single_vector_of obj_position cam_position =
     vec_scale (1 / vector_length (vec_sub cam_position obj_position)) (vec_sub cam_position obj_position)"

definition lamps_state :: "tri_lighting \<Rightarrow> nat \<Rightarrow> vector \<Rightarrow> vector \<Rightarrow> blend \<Rightarrow> blend" where
  "lamps_state self obj obj_position cam_position s =
     (let d = single_vector_of obj_position cam_position;
          m = length (lights s);
          n = length (objects s)
      in s\<lparr>lights := lights s @ [back_light self, fill_light self, key_light self],
           objects := objects s @
             [lamp_object ''TriLamp-Back'' m
                (lamp_location self (of_int (backangle self)) d obj_position) [track_to obj],
              lamp_object ''TriLamp-Fill'' (m + 1)
                (lamp_location self (of_int (rightangle self)) d obj_position) [track_to obj],
              lamp_object ''TriLamp-Key'' (m + 2)
                (lamp_location self (of_int (- leftangle self)) d obj_position) [track_to obj]],
           collection_objects := collection_objects s @ [n, n + 1, n + 2]\<rparr>)"

definition camera_object :: "nat \<Rightarrow> vector \<Rightarrow> object" where
  "camera_object dat loc =
     \<lparr>o_name = ''Camera'', o_data = Camera_data dat, o_location = loc, o_constraints = []\<rparr>"

definition camera_state :: "bpy_context \<Rightarrow> blend \<Rightarrow> blend" where
  "camera_state ctx s =
     s\<lparr>cameras := cameras s @ [''Camera''],
       objects := objects s @ [camera_object (length (cameras s)) (view_location ctx)],
       collection_objects := collection_objects s @ [length (objects s)],
       scene_camera := Some (length (objects s)),
       camera_view := False\<rparr>"

text \<open>
  The camera the context offers before any is created (lines 239 to 243): the camera of
  the 3D viewport, or the scene's camera in any other space; \<open>None\<close> when there is
  no space.
\<close>

definition context_camera :: "bpy_context \<Rightarrow> blend \<Rightarrow> nat option" where
  "context_camera ctx s =
     (case space_data ctx of None \<Rightarrow> None
      | Some view \<Rightarrow> if space_type view = ''VIEW_3D'' then space_camera view else scene_camera s)"

text \<open>
  Nothing was removed or changed in place: every list of the earlier state is the
  beginning of the same list of the later state.
\<close>

definition extends :: "blend \<Rightarrow> blend \<Rightarrow> bool" where
  "extends s s' =
     (take (length (cameras s)) (cameras s') = cameras s \<and>
      take (length (lights s)) (lights s') = lights s \<and>
      take (length (objects s)) (objects s') = objects s \<and>
      take (length (collection_objects s)) (collection_objects s') = collection_objects s \<and>
      take (length (reports s)) (reports s') = reports s \<and>
      take (length (console s)) (console s') = console s)"

subsection \<open>A concrete scene\<close>

text \<open>The operator's properties at the defaults their declarations give (lines 42 to 168).\<close>

definition defaults :: tri_lighting where
  "defaults =
     \<lparr>height = 5, distance = 5, energy = 3, contrast = 50,
      leftangle = 26, rightangle = 45, backangle = 235,
      primarytype = AREA, secondarytype = AREA,
      key_light_shape = SQUARE, secondary_light_shape = SQUARE,
      key_light_size = 1 / 4, secondary_light_size = 1 / 4,
      shadow_soft_size_key = 0, shadow_soft_size_fill = 0,
      spot_size_key = 45, spot_blend_key = 15 / 100,
      spot_size_fill = 45, spot_blend_fill = 15 / 100\<rparr>"

definition origin :: vector where
  "origin = \<lparr>vec_x = 0, vec_y = 0, vec_z = 0\<rparr>"

definition cube :: object where
  "cube = \<lparr>o_name = ''Cube'', o_data = Other_data, o_location = origin, o_constraints = []\<rparr>"

text \<open>A cube at the origin (object 0) and a camera (object 1) at the given place.\<close>

definition scene_with_camera :: "vector \<Rightarrow> blend" where
  "scene_with_camera cam =
     \<lparr>cameras = [''Camera''], lights = [], objects = [cube, camera_object 0 cam],
      collection_objects = [0, 1], scene_camera = Some 1, camera_view = False,
      reports = [], console = []\<rparr>"

text \<open>A 3D viewport that shows the camera; the cube is active; the host raises nowhere.\<close>

definition view3d_context :: bpy_context where
  "view3d_context =
     \<lparr>space_data = Some \<lparr>space_type = ''VIEW_3D'', space_camera = Some 1\<rparr>,
      active = Some 0,
      view_location = \<lparr>vec_x = 7, vec_y = - 7, vec_z = 5\<rparr>,
      raises = (\<lambda>call. None)\<rparr>"

text \<open>The same, with a host that fails when the fill lamp asks for its constraint.\<close>

definition failing_context :: bpy_context where
  "failing_context =
     view3d_context\<lparr>raises := (\<lambda>call.
        if call = Constraints_new ''TriLamp-Fill'' then Some ''RuntimeError'' else None)\<rparr>"

text \<open>A scene with the cube only, seen from a viewpoint at the cube's own place.\<close>

definition scene_without_camera :: blend where
  "scene_without_camera =
     \<lparr>cameras = [], lights = [], objects = [cube], collection_objects = [0],
      scene_camera = None, camera_view = False, reports = [], console = []\<rparr>"

definition context_without_camera :: bpy_context where
  "context_without_camera =
     \<lparr>space_data = Some \<lparr>space_type = ''VIEW_3D'', space_camera = None\<rparr>,
      active = Some 0,
      view_location = origin,
      raises = (\<lambda>call. None)\<rparr>"

text \<open>A camera place five units in front of the cube.\<close>

definition front :: vector where
  "front = \<lparr>vec_x = 0, vec_y = - 5, vec_z = 0\<rparr>"

text \<open>
  The state in which the failing host leaves the scene whose camera is in front: the
  back lamp is complete, the fill lamp has its datablock and its object, placed and
  linked, but no constraint, and there is no key lamp.
\<close>

definition fill_failed :: blend where
  "fill_failed =
     (scene_with_camera front)
       \<lparr>lights := [back_light defaults, fill_light defaults],
        objects := [cube, camera_object 0 front,
          lamp_object ''TriLamp-Back'' 0
            (lamp_location defaults (of_int (backangle defaults))
               (single_vector_of origin front) origin) [track_to 0],
          lamp_object ''TriLamp-Fill'' 1
            (lamp_location defaults (of_int (rightangle defaults))
               (single_vector_of origin front) origin) []],
        collection_objects := [0, 1, 2, 3]\<rparr>"

text \<open>A camera place three units straight above the cube.\<close>

definition overhead :: vector where
  "overhead = \<lparr>vec_x = 0, vec_y = 0, vec_z = 3\<rparr>"

section \<open>Properties of the operations\<close>

lemma add_lamp_eq:
  "add_lamp ctx self name angle ty en shp sz spot_size spot_blend shadow single_vector obj_position obj s =
     (let s1 = s\<lparr>lights := lights s @ [lamp_light name ty en shp sz spot_size spot_blend shadow]\<rparr>;
          origin = \<lparr>vec_x = 0, vec_y = 0, vec_z = 0\<rparr>;
          loc = lamp_location self angle single_vector obj_position;
          dat = length (lights s) in
      case raises ctx (Lights_new name) of Some e \<Rightarrow> (Inl e, s)
      | None \<Rightarrow>
     (case raises ctx (Objects_new name) of Some e \<Rightarrow> (Inl e, s1)
      | None \<Rightarrow>
     (case raises ctx (Objects_link name) of
        Some e \<Rightarrow> (Inl e, s1\<lparr>objects := objects s @ [lamp_object name dat origin []]\<rparr>)
      | None \<Rightarrow>
     (case raises ctx (Constraints_new name) of
        Some e \<Rightarrow> (Inl e, s1\<lparr>objects := objects s @ [lamp_object name dat loc []],
                              collection_objects := collection_objects s @ [length (objects s)]\<rparr>)
      | None \<Rightarrow> (Inr (), s1\<lparr>objects := objects s @ [lamp_object name dat loc [track_to obj]],
                              collection_objects := collection_objects s @ [length (objects s)]\<rparr>)))))"
  by (simp add: add_lamp_def and_then_def host_def raise_def return_def lights_new_def light_set_def
      objects_new_def objects_link_def object_set_def constraints_new_def constraint_set_def
      lamp_light_def lamp_location_def lamp_object_def track_to_def Let_def
      split: option.splits)

lemma and_then_Inr:
  "and_then m k s = (Inr v, s') \<longleftrightarrow> (\<exists>x s1. m s = (Inr x, s1) \<and> k x s1 = (Inr v, s'))"
  by (auto simp: and_then_def split: prod.splits sum.splits)

lemma add_lamp_Inr:
  "add_lamp ctx self name angle ty en shp sz spot_size spot_blend shadow single_vector obj_position obj s
     = (Inr u, s') \<longleftrightarrow>
   raises ctx (Lights_new name) = None \<and> raises ctx (Objects_new name) = None \<and>
   raises ctx (Objects_link name) = None \<and> raises ctx (Constraints_new name) = None \<and>
   s' = s\<lparr>lights := lights s @ [lamp_light name ty en shp sz spot_size spot_blend shadow],
          objects := objects s @
            [lamp_object name (length (lights s))
               (lamp_location self angle single_vector obj_position) [track_to obj]],
          collection_objects := collection_objects s @ [length (objects s)]\<rparr>"
  by (auto simp: add_lamp_eq Let_def split: option.splits)

lemma place_lamps_FINISHED:
  assumes "place_lamps ctx self obj obj_position cam_position s = (Inr FINISHED, s')"
  shows "vector_length (vec_sub cam_position obj_position) \<noteq> 0"
    and "s' = lamps_state self obj obj_position cam_position s"
  using assms
  by (auto simp: place_lamps_def and_then_Inr add_lamp_Inr return_def report_def Let_def
      lamps_state_def back_light_def fill_light_def key_light_def single_vector_of_def
      split: prod.splits if_splits)

lemma new_camera_eq:
  "new_camera ctx s =
     (let origin = \<lparr>vec_x = 0, vec_y = 0, vec_z = 0\<rparr>;
          dat = length (cameras s);
          cam = length (objects s);
          s1 = s\<lparr>cameras := cameras s @ [''Camera'']\<rparr>;
          s2 = s1\<lparr>objects := objects s @ [camera_object dat origin]\<rparr>;
          s3 = s2\<lparr>collection_objects := collection_objects s @ [cam], scene_camera := Some cam\<rparr>;
          s4 = s3\<lparr>objects := objects s @ [camera_object dat (view_location ctx)], camera_view := True\<rparr>
      in
      case raises ctx Cameras_new of Some e \<Rightarrow> (Inl e, s)
      | None \<Rightarrow>
     (case raises ctx (Objects_new ''Camera'') of Some e \<Rightarrow> (Inl e, s1)
      | None \<Rightarrow>
     (case raises ctx (Objects_link ''Camera'') of Some e \<Rightarrow> (Inl e, s2)
      | None \<Rightarrow>
     (case raises ctx Camera_to_view of Some e \<Rightarrow> (Inl e, s3)
      | None \<Rightarrow>
     (case raises ctx View_camera of Some e \<Rightarrow> (Inl e, s4)
      | None \<Rightarrow> (Inr cam, camera_state ctx s))))))"
  by (simp add: new_camera_def and_then_def host_def raise_def return_def cameras_new_def
      objects_new_def objects_link_def camera_to_view_def view_camera_def camera_object_def
      camera_state_def Let_def split: option.splits)

lemma get_camera_Inr:
  assumes "get_camera ctx s = (Inr camera, s1)"
  shows "(context_camera ctx s = Some camera \<and> s1 = s) \<or>
         (context_camera ctx s = None \<and> camera = length (objects s) \<and> s1 = camera_state ctx s)"
  using assms
  by (auto simp: get_camera_def context_camera_def new_camera_eq Let_def
      split: option.splits if_splits)

lemma execute_FINISHED:
  assumes "execute self ctx s = (FINISHED, s')"
  obtains camera s1 obj where
    "get_camera ctx s = (Inr camera, s1)" "active ctx = Some obj"
    "obj < length (objects s1)" "camera < length (objects s1)"
    "vector_length (vec_sub (o_location (objects s1 ! camera)) (o_location (objects s1 ! obj))) \<noteq> 0"
    "s' = lamps_state self obj (o_location (objects s1 ! obj)) (o_location (objects s1 ! camera)) s1"
proof -
  from assms have "execute_try self ctx s = (Inr FINISHED, s')"
    by (auto simp: execute_def split: prod.splits sum.splits)
  then obtain camera s1 obj where c: "get_camera ctx s = (Inr camera, s1)"
    and a: "active ctx = Some obj"
    and r: "and_then (location_of obj) (\<lambda>obj_position.
           and_then (location_of camera) (\<lambda>cam_position.
           place_lamps ctx self obj obj_position cam_position)) s1 = (Inr FINISHED, s')"
    by (auto simp: execute_try_def and_then_Inr raise_def split: option.splits)
  from r have lo: "obj < length (objects s1)" and lc: "camera < length (objects s1)"
    and p: "place_lamps ctx self obj (o_location (objects s1 ! obj))
              (o_location (objects s1 ! camera)) s1 = (Inr FINISHED, s')"
    by (auto simp: and_then_Inr location_of_def split: if_splits)
  from place_lamps_FINISHED [OF p] c a lo lc that show thesis
    by blast
qed

lemma take_prefix_trans:
  assumes "take (length xs) ys = xs" "take (length ys) zs = ys"
  shows "take (length xs) zs = xs"
proof -
  have "length (take (length xs) ys) = length xs"
    using assms(1) by simp
  then have "length xs \<le> length ys"
    by simp
  then have "take (length xs) zs = take (length xs) (take (length ys) zs)"
    by (simp add: min_def)
  with assms show ?thesis by simp
qed

lemma extends_refl: "extends s s"
  by (simp add: extends_def)

lemma extends_trans: "extends a b \<Longrightarrow> extends b c \<Longrightarrow> extends a c"
  unfolding extends_def by (blast intro: take_prefix_trans)

lemma and_then_preserves:
  assumes m: "\<And>s r s'. m s = (r, s') \<Longrightarrow> R s s'"
    and k: "\<And>v s r s'. k v s = (r, s') \<Longrightarrow> R s s'"
    and trans: "\<And>a b c. R a b \<Longrightarrow> R b c \<Longrightarrow> R a c"
    and run: "and_then m k s = (r, s')"
  shows "R s s'"
proof (cases "m s")
  case (Pair r1 s1)
  show ?thesis
  proof (cases r1)
    case (Inl e)
    with Pair run have "s' = s1" by (simp add: and_then_def)
    with Pair m show ?thesis by blast
  next
    case (Inr v)
    with Pair run have "k v s1 = (r, s')" by (simp add: and_then_def)
    with Pair m k trans show ?thesis by blast
  qed
qed

lemma add_lamp_extends:
  "add_lamp ctx self name angle ty en shp sz spot_size spot_blend shadow single_vector obj_position obj s
     = (r, s') \<Longrightarrow> extends s s'"
  by (auto simp: add_lamp_eq Let_def extends_def split: option.splits)

lemma new_camera_extends: "new_camera ctx s = (r, s') \<Longrightarrow> extends s s'"
  by (auto simp: new_camera_eq Let_def extends_def camera_state_def split: option.splits)

lemma get_camera_extends: "get_camera ctx s = (r, s') \<Longrightarrow> extends s s'"
  by (auto simp: get_camera_def extends_refl new_camera_extends split: option.splits if_splits)

lemma place_lamps_extends:
  assumes "place_lamps ctx self obj obj_position cam_position s = (r, s')"
  shows "extends s s'"
proof (cases "vector_length (vec_sub cam_position obj_position) = 0")
  case True
  with assms show ?thesis
    by (auto simp: place_lamps_def and_then_def report_def return_def extends_def
        split: prod.splits)
next
  case False
  obtain ke be fe where e: "energies self = (ke, be, fe)"
    by (cases "energies self") auto
  have ret: "\<And>s r s'. return FINISHED s = (r, s') \<Longrightarrow> extends s s'"
    by (auto simp: return_def extends_refl)
  from assms False e show ?thesis
    unfolding place_lamps_def Let_def
    by (auto elim!: and_then_preserves [where R = extends, rotated 3]
        intro: add_lamp_extends extends_trans ret)
qed

lemma place_lamps_ok:
  assumes "vector_length (vec_sub cam_position obj_position) \<noteq> 0"
    and "\<And>call. raises ctx call = None"
  shows "place_lamps ctx self obj obj_position cam_position s =
           (Inr FINISHED, lamps_state self obj obj_position cam_position s)"
  using assms
  by (simp add: place_lamps_def and_then_def add_lamp_eq return_def Let_def
      lamps_state_def back_light_def fill_light_def key_light_def single_vector_of_def
      split: prod.splits)

lemma execute_after_camera:
  assumes "get_camera ctx s = (Inr camera, s1)" "active ctx = Some obj"
    "obj < length (objects s1)" "camera < length (objects s1)"
  shows "execute self ctx s =
     (case place_lamps ctx self obj (o_location (objects s1 ! obj))
             (o_location (objects s1 ! camera)) s1 of
        (Inr st, s') \<Rightarrow> (st, s')
      | (Inl e, s') \<Rightarrow>
          (CANCELLED,
           s'\<lparr>reports := reports s' @
                 [(''WARNING'', ''Some operations could not be performed (See Console for more info)'')],
              console := console s' @ [console_message e]\<rparr>))"
  using assms
  by (simp add: execute_def execute_try_def and_then_def location_of_def)

lemma sqrt_25: "sqrt 25 = 5"
  using real_sqrt_abs [of 5] by simp

lemma example_camera:
  "get_camera view3d_context (scene_with_camera cam) = (Inr 1, scene_with_camera cam)"
  by (simp add: get_camera_def view3d_context_def)

lemma example_execute:
  assumes "vector_length (vec_sub cam origin) \<noteq> 0"
  shows "execute self view3d_context (scene_with_camera cam) =
     (FINISHED, lamps_state self 0 origin cam (scene_with_camera cam))"
proof -
  have o: "objects (scene_with_camera cam) = [cube, camera_object 0 cam]"
    by (simp add: scene_with_camera_def)
  have "place_lamps view3d_context self 0 origin cam (scene_with_camera cam) =
          (Inr FINISHED, lamps_state self 0 origin cam (scene_with_camera cam))"
    using assms by (intro place_lamps_ok) (simp_all add: view3d_context_def)
  then show ?thesis
    using execute_after_camera [OF example_camera, of 0 cam self]
    by (simp add: o view3d_context_def cube_def camera_object_def)
qed

lemma get_camera_lights: "get_camera ctx s = (r, s1) \<Longrightarrow> lights s1 = lights s"
  by (auto simp: get_camera_def new_camera_eq Let_def camera_state_def
      split: option.splits if_splits)

lemma place_lamps_lights:
  assumes "place_lamps ctx self obj obj_position cam_position s = (r, s')"
  shows "\<exists>k. lights s' = lights s @ take k [back_light self, fill_light self, key_light self]"
proof (cases "vector_length (vec_sub cam_position obj_position) = 0")
  case True
  with assms have "lights s' = lights s"
    by (auto simp: place_lamps_def and_then_def report_def return_def split: prod.splits)
  then show ?thesis by (intro exI [of _ 0]) simp
next
  case False
  with assms have
    "lights s' = lights s \<or> lights s' = lights s @ [back_light self] \<or>
     lights s' = lights s @ [back_light self, fill_light self] \<or>
     lights s' = lights s @ [back_light self, fill_light self, key_light self]"
    by (auto simp: place_lamps_def and_then_def add_lamp_eq return_def Let_def
        back_light_def fill_light_def key_light_def
        split: prod.splits option.splits)
  then consider "lights s' = lights s @ take 0 [back_light self, fill_light self, key_light self]"
    | "lights s' = lights s @ take 1 [back_light self, fill_light self, key_light self]"
    | "lights s' = lights s @ take 2 [back_light self, fill_light self, key_light self]"
    | "lights s' = lights s @ take 3 [back_light self, fill_light self, key_light self]"
    by (auto simp: numeral_2_eq_2)
  then show ?thesis by cases blast+
qed

lemma execute_lights:
  assumes "execute self ctx s = (st, s')"
  shows "\<exists>k. lights s' = lights s @ take k [back_light self, fill_light self, key_light self]"
proof -
  obtain r s2 where t: "execute_try self ctx s = (r, s2)"
    by (cases "execute_try self ctx s") auto
  with assms have l: "lights s' = lights s2"
    by (auto simp: execute_def split: sum.splits)
  obtain rc s1 where c: "get_camera ctx s = (rc, s1)"
    by (cases "get_camera ctx s") auto
  have "\<exists>k. lights s2 = lights s1 @ take k [back_light self, fill_light self, key_light self]"
  proof (cases "\<exists>camera obj. rc = Inr camera \<and> active ctx = Some obj \<and>
      obj < length (objects s1) \<and> camera < length (objects s1)")
    case True
    then obtain camera obj where "rc = Inr camera" "active ctx = Some obj"
      "obj < length (objects s1)" "camera < length (objects s1)" by blast
    with t c have "place_lamps ctx self obj (o_location (objects s1 ! obj))
        (o_location (objects s1 ! camera)) s1 = (r, s2)"
      by (simp add: execute_try_def and_then_def location_of_def)
    then show ?thesis by (rule place_lamps_lights)
  next
    case False
    with t c have "s2 = s1"
      by (auto simp: execute_try_def and_then_def location_of_def raise_def
          split: sum.splits option.splits if_splits)
    then show ?thesis by (intro exI [of _ 0]) simp
  qed
  with l get_camera_lights [OF c] show ?thesis by simp
qed

lemma execute_FINISHED_lights:
  assumes "execute self ctx s = (FINISHED, s')"
  shows "lights s' = lights s @ [back_light self, fill_light self, key_light self]"
  using assms
  by (elim execute_FINISHED) (simp add: lamps_state_def Let_def get_camera_lights)

lemma front_length: "vector_length (vec_sub front origin) = 5"
  by (simp add: vector_length_def vec_sub_def origin_def front_def sqrt_25)

lemma front_execute:
  "execute self view3d_context (scene_with_camera front) =
     (FINISHED, lamps_state self 0 origin front (scene_with_camera front))"
  by (rule example_execute) (simp add: front_length)

section \<open>The claims\<close>

text \<open>
  C1 (energy split). A run that finishes has created the lights Back, Fill and Key, in
  this order, after the lights that were there. For a base energy E and a contrast C:
  if C > 0 the key light's energy is E and the fill and back lights' energies are both
  (E/100)*|C|; otherwise the key light's energy is (E/100)*|C| and the fill and back
  lights' energies are both E. No bound on C is needed.
\<close>

theorem energy_split:
  assumes "execute self ctx s = (FINISHED, s')"
  shows "\<exists>back fill key. lights s' = lights s @ [back, fill, key] \<and>
     l_name back = ''TriLamp-Back'' \<and> l_name fill = ''TriLamp-Fill'' \<and>
     l_name key = ''TriLamp-Key'' \<and>
     (if contrast self > 0
      then l_energy key = Some (of_int (energy self)) \<and>
           l_energy fill = Some ((of_int (energy self) / 100) * of_int \<bar>contrast self\<bar>) \<and>
           l_energy back = Some ((of_int (energy self) / 100) * of_int \<bar>contrast self\<bar>)
      else l_energy key = Some ((of_int (energy self) / 100) * of_int \<bar>contrast self\<bar>) \<and>
           l_energy fill = Some (of_int (energy self)) \<and>
           l_energy back = Some (of_int (energy self)))"
  using execute_FINISHED_lights [OF assms]
  by (simp add: back_light_def fill_light_def key_light_def lamp_light_def energies_def)

theorem energy_split_witness:
  "execute defaults view3d_context (scene_with_camera front) =
     (FINISHED, lamps_state defaults 0 origin front (scene_with_camera front)) \<and>
   (\<exists>back fill key.
      lights (lamps_state defaults 0 origin front (scene_with_camera front)) = [back, fill, key] \<and>
      l_name back = ''TriLamp-Back'' \<and> l_name fill = ''TriLamp-Fill'' \<and>
      l_name key = ''TriLamp-Key'' \<and>
      l_energy key = Some 3 \<and> l_energy fill = Some (3 / 2) \<and> l_energy back = Some (3 / 2))"
  using energy_split [OF front_execute, of defaults] front_execute [of defaults]
  by (simp add: defaults_def scene_with_camera_def)

text \<open>Two identities of a rotation matrix and its transpose.\<close>

lemma rotation_cancel:
  fixes c s x y :: real
  assumes "s * s + c * c = 1"
  shows "c * (c * x - s * y) + s * (s * x + c * y) = x"
    and "c * (s * x + c * y) - s * (c * x - s * y) = y"
proof -
  have "c * (c * x - s * y) + s * (s * x + c * y) = (s * s + c * c) * x"
    by (simp add: algebra_simps)
  with assms show "c * (c * x - s * y) + s * (s * x + c * y) = x"
    by simp
  have "c * (s * x + c * y) - s * (c * x - s * y) = (s * s + c * c) * y"
    by (simp add: algebra_simps)
  with assms show "c * (s * x + c * y) - s * (c * x - s * y) = y"
    by simp
qed

lemma rotate_back: "rotate_xy (- a) (rotate_xy a v) = v"
proof -
  have "sin a * sin a + cos a * cos a = 1"
    using sin_cos_squared_add [of a] by (simp add: power2_eq_square)
  from rotation_cancel [OF this, of "vec_x v" "vec_y v"] show ?thesis
    by (simp add: rotate_xy_def)
qed

text \<open>
  C5 (rotation round trip). Over the reals, the placement rotation by an angle and then
  by the negated angle gives back the vector, for every vector and every angle, whether
  the angle is negated in radians or, as the source does for the key light, in degrees.
  The rotation is the formula rx = cos(a)*dx - sin(a)*dy, ry = sin(a)*dx + cos(a)*dy and
  leaves z as it was.
\<close>

theorem rotation_round_trip:
  "rotate_xy (- a) (rotate_xy a v) = v \<and>
   rotate_xy (radians (- d)) (rotate_xy (radians d) v) = v \<and>
   vec_x (rotate_xy a v) = cos a * vec_x v - sin a * vec_y v \<and>
   vec_y (rotate_xy a v) = sin a * vec_x v + cos a * vec_y v \<and>
   vec_z (rotate_xy a v) = vec_z v"
proof -
  have "radians (- d) = - radians d"
    by (simp add: radians_def)
  with rotate_back [of "radians d" v] rotate_back [of a v] show ?thesis
    by (simp add: rotate_xy_def)
qed

text \<open>
  C6 (SPOT key light). With the key light type SPOT, every light named TriLamp-Key that
  a run has created, whether the run finished or was cancelled later, has its spot cone
  angle set to the key spot size converted from degrees to radians and its spot blend
  set to the key blend, and its area fields shape and size were never assigned. A run
  that finishes has created this light, as the last of its three.
\<close>

theorem spot_key_light:
  assumes "primarytype self = SPOT" and "execute self ctx s = (st, s')"
  shows "(\<forall>l \<in> set (drop (length (lights s)) (lights s')). l_name l = ''TriLamp-Key'' \<longrightarrow>
            l_type l = SPOT \<and>
            l_spot_size l = Some (radians (spot_size_key self)) \<and>
            l_spot_size l = Some (spot_size_key self * pi / 180) \<and>
            l_spot_blend l = Some (spot_blend_key self) \<and>
            l_shape l = None \<and> l_size l = None) \<and>
         (st = FINISHED \<longrightarrow>
            (\<exists>back fill key. lights s' = lights s @ [back, fill, key] \<and>
               l_name key = ''TriLamp-Key''))"
proof -
  from execute_lights [OF assms(2)] obtain k where
    k: "lights s' = lights s @ take k [back_light self, fill_light self, key_light self]"
    by blast
  have "set (take k [back_light self, fill_light self, key_light self])
          \<subseteq> {back_light self, fill_light self, key_light self}"
    using set_take_subset [of k "[back_light self, fill_light self, key_light self]"] by simp
  with k have "set (drop (length (lights s)) (lights s'))
          \<subseteq> {back_light self, fill_light self, key_light self}"
    by simp
  moreover have "l_name (back_light self) \<noteq> ''TriLamp-Key''" "l_name (fill_light self) \<noteq> ''TriLamp-Key''"
    by (simp_all add: back_light_def fill_light_def lamp_light_def)
  moreover have "l_type (key_light self) = SPOT"
    "l_spot_size (key_light self) = Some (radians (spot_size_key self))"
    "l_spot_blend (key_light self) = Some (spot_blend_key self)"
    "l_shape (key_light self) = None" "l_size (key_light self) = None"
    using assms(1) by (simp_all add: key_light_def lamp_light_def)
  ultimately have first: "\<forall>l \<in> set (drop (length (lights s)) (lights s')). l_name l = ''TriLamp-Key'' \<longrightarrow>
            l_type l = SPOT \<and>
            l_spot_size l = Some (radians (spot_size_key self)) \<and>
            l_spot_size l = Some (spot_size_key self * pi / 180) \<and>
            l_spot_blend l = Some (spot_blend_key self) \<and>
            l_shape l = None \<and> l_size l = None"
    by (auto simp: radians_def)
  have "st = FINISHED \<longrightarrow>
            (\<exists>back fill key. lights s' = lights s @ [back, fill, key] \<and>
               l_name key = ''TriLamp-Key'')"
    using assms(2) execute_FINISHED_lights [of self ctx s s']
    by (auto simp: key_light_def lamp_light_def)
  with first show ?thesis by blast
qed

theorem spot_key_light_witness:
  "primarytype (defaults\<lparr>primarytype := SPOT\<rparr>) = SPOT \<and>
   execute (defaults\<lparr>primarytype := SPOT\<rparr>) view3d_context (scene_with_camera front) =
     (FINISHED, lamps_state (defaults\<lparr>primarytype := SPOT\<rparr>) 0 origin front (scene_with_camera front)) \<and>
   (\<exists>back fill key.
      lights (lamps_state (defaults\<lparr>primarytype := SPOT\<rparr>) 0 origin front (scene_with_camera front))
        = [back, fill, key] \<and>
      l_name key = ''TriLamp-Key'' \<and> l_type key = SPOT \<and>
      l_spot_size key = Some (45 * pi / 180) \<and> l_spot_blend key = Some (15 / 100) \<and>
      l_shape key = None \<and> l_size key = None)"
proof -
  let ?self = "defaults\<lparr>primarytype := SPOT\<rparr>"
  let ?s' = "lamps_state ?self 0 origin front (scene_with_camera front)"
  have p: "primarytype ?self = SPOT" by simp
  have l: "lights (scene_with_camera front) = []"
    by (simp add: scene_with_camera_def)
  from spot_key_light [OF p front_execute [of "?self"]] obtain lb lf lk where
    a: "\<forall>l \<in> set (lights ?s'). l_name l = ''TriLamp-Key'' \<longrightarrow>
            l_type l = SPOT \<and>
            l_spot_size l = Some (radians (spot_size_key ?self)) \<and>
            l_spot_size l = Some (spot_size_key ?self * pi / 180) \<and>
            l_spot_blend l = Some (spot_blend_key ?self) \<and>
            l_shape l = None \<and> l_size l = None"
    and b: "lights ?s' = [lb, lf, lk]" "l_name lk = ''TriLamp-Key''"
    by (auto simp: l)
  from a b have "l_type lk = SPOT \<and> l_spot_size lk = Some (45 * pi / 180) \<and>
      l_spot_blend lk = Some (15 / 100) \<and> l_shape lk = None \<and> l_size lk = None"
    by (simp add: defaults_def radians_def)
  with p b front_execute [of "?self"] show ?thesis
    by blast
qed

text \<open>
  C7 (parameter sets). A run that finishes has created three lights. The key light is
  built from the key set only: key type, and by type the key shape and size (AREA), the
  key spot size and blend (SPOT), the key shadow soft size (POINT or SPOT). The fill and
  back lights are both built from the one secondary set in the same way, so they agree
  on type, shape, size, spot size, spot blend and shadow soft size (and on energy): they
  differ in their names only.
\<close>

theorem parameter_sets:
  assumes "execute self ctx s = (FINISHED, s')"
  shows "\<exists>back fill key. lights s' = lights s @ [back, fill, key] \<and>
     key = \<lparr>l_name = ''TriLamp-Key'', l_type = primarytype self,
            l_energy = Some (fst (energies self)),
            l_shape = (if primarytype self = AREA then Some (key_light_shape self) else None),
            l_size = (if primarytype self = AREA then Some (key_light_size self) else None),
            l_spot_size = (if primarytype self = SPOT
                           then Some (radians (spot_size_key self)) else None),
            l_spot_blend = (if primarytype self = SPOT then Some (spot_blend_key self) else None),
            l_shadow_soft_size = (if primarytype self = POINT \<or> primarytype self = SPOT
                                  then Some (shadow_soft_size_key self) else None)\<rparr> \<and>
     fill = \<lparr>l_name = ''TriLamp-Fill'', l_type = secondarytype self,
            l_energy = Some (snd (snd (energies self))),
            l_shape = (if secondarytype self = AREA then Some (secondary_light_shape self) else None),
            l_size = (if secondarytype self = AREA then Some (secondary_light_size self) else None),
            l_spot_size = (if secondarytype self = SPOT
                           then Some (radians (spot_size_fill self)) else None),
            l_spot_blend = (if secondarytype self = SPOT then Some (spot_blend_fill self) else None),
            l_shadow_soft_size = (if secondarytype self = POINT \<or> secondarytype self = SPOT
                                  then Some (shadow_soft_size_fill self) else None)\<rparr> \<and>
     back = fill\<lparr>l_name := ''TriLamp-Back''\<rparr> \<and>
     l_type back = l_type fill \<and> l_shape back = l_shape fill \<and> l_size back = l_size fill \<and>
     l_spot_size back = l_spot_size fill \<and> l_spot_blend back = l_spot_blend fill \<and>
     l_shadow_soft_size back = l_shadow_soft_size fill"
  using execute_FINISHED_lights [OF assms]
  by (simp add: back_light_def fill_light_def key_light_def lamp_light_def energies_def)

theorem parameter_sets_witness:
  "execute defaults view3d_context (scene_with_camera front) =
     (FINISHED, lamps_state defaults 0 origin front (scene_with_camera front)) \<and>
   lights (lamps_state defaults 0 origin front (scene_with_camera front)) =
     [\<lparr>l_name = ''TriLamp-Back'', l_type = AREA, l_energy = Some (3 / 2),
       l_shape = Some SQUARE, l_size = Some (1 / 4), l_spot_size = None, l_spot_blend = None,
       l_shadow_soft_size = None\<rparr>,
      \<lparr>l_name = ''TriLamp-Fill'', l_type = AREA, l_energy = Some (3 / 2),
       l_shape = Some SQUARE, l_size = Some (1 / 4), l_spot_size = None, l_spot_blend = None,
       l_shadow_soft_size = None\<rparr>,
      \<lparr>l_name = ''TriLamp-Key'', l_type = AREA, l_energy = Some 3,
       l_shape = Some SQUARE, l_size = Some (1 / 4), l_spot_size = None, l_spot_blend = None,
       l_shadow_soft_size = None\<rparr>]"
  using parameter_sets [OF front_execute, of defaults] front_execute [of defaults]
  by (auto simp: defaults_def scene_with_camera_def energies_def)

text \<open>
  C8 (output shape). A run that finishes has created exactly three lights, Back, Fill
  and Key, after the lights that were there, and exactly three objects that carry them,
  after the objects that were there and the camera if one had to be created. Each of
  the three objects has exactly one constraint: a TRACK_TO whose target is the active
  object, whose track axis is TRACK_NEGATIVE_Z and whose up axis is UP_Y. The three are
  linked to the collection.
\<close>

theorem three_tracking_lamps:
  assumes "execute self ctx s = (FINISHED, s')"
  shows "\<exists>obj pre col lb lf lk b_obj f_obj k_obj.
     active ctx = Some obj \<and> obj < length pre \<and>
     lights s' = lights s @ [lb, lf, lk] \<and>
     l_name lb = ''TriLamp-Back'' \<and> l_name lf = ''TriLamp-Fill'' \<and> l_name lk = ''TriLamp-Key'' \<and>
     (pre = objects s \<or>
      pre = objects s @ [\<lparr>o_name = ''Camera'', o_data = Camera_data (length (cameras s)),
                           o_location = view_location ctx, o_constraints = []\<rparr>]) \<and>
     objects s' = pre @ [b_obj, f_obj, k_obj] \<and>
     o_name b_obj = ''TriLamp-Back'' \<and> o_name f_obj = ''TriLamp-Fill'' \<and>
     o_name k_obj = ''TriLamp-Key'' \<and>
     o_data b_obj = Light_data (length (lights s)) \<and>
     o_data f_obj = Light_data (length (lights s) + 1) \<and>
     o_data k_obj = Light_data (length (lights s) + 2) \<and>
     o_constraints b_obj = [\<lparr>c_type = ''TRACK_TO'', c_target = active ctx,
        c_track_axis = Some ''TRACK_NEGATIVE_Z'', c_up_axis = Some ''UP_Y''\<rparr>] \<and>
     o_constraints f_obj = [\<lparr>c_type = ''TRACK_TO'', c_target = active ctx,
        c_track_axis = Some ''TRACK_NEGATIVE_Z'', c_up_axis = Some ''UP_Y''\<rparr>] \<and>
     o_constraints k_obj = [\<lparr>c_type = ''TRACK_TO'', c_target = active ctx,
        c_track_axis = Some ''TRACK_NEGATIVE_Z'', c_up_axis = Some ''UP_Y''\<rparr>] \<and>
     (col = collection_objects s \<or> col = collection_objects s @ [length (objects s)]) \<and>
     collection_objects s' = col @ [length pre, length pre + 1, length pre + 2]"
  using assms
proof (rule execute_FINISHED)
  fix camera s1 obj
  assume c: "get_camera ctx s = (Inr camera, s1)" and a: "active ctx = Some obj"
    and lo: "obj < length (objects s1)"
    and s': "s' = lamps_state self obj (o_location (objects s1 ! obj))
                    (o_location (objects s1 ! camera)) s1"
  from get_camera_Inr [OF c] have
    pre: "objects s1 = objects s \<or>
      objects s1 = objects s @ [\<lparr>o_name = ''Camera'', o_data = Camera_data (length (cameras s)),
                           o_location = view_location ctx, o_constraints = []\<rparr>]"
    and col: "collection_objects s1 = collection_objects s \<or>
      collection_objects s1 = collection_objects s @ [length (objects s)]"
    by (auto simp: camera_state_def camera_object_def)
  have l: "lights s1 = lights s"
    by (rule get_camera_lights [OF c])
  show ?thesis
    apply (rule exI [of _ obj])
    apply (rule exI [of _ "objects s1"])
    apply (rule exI [of _ "collection_objects s1"])
    using a lo pre col l s'
    by (simp add: lamps_state_def Let_def back_light_def fill_light_def key_light_def
        lamp_light_def lamp_object_def track_to_def)
qed

theorem three_tracking_lamps_witness:
  "execute defaults view3d_context (scene_with_camera front) =
     (FINISHED, lamps_state defaults 0 origin front (scene_with_camera front)) \<and>
   (\<exists>obj pre col lb lf lk b_obj f_obj k_obj.
     active view3d_context = Some obj \<and> obj < length pre \<and>
     lights (lamps_state defaults 0 origin front (scene_with_camera front)) = lights (scene_with_camera front) @ [lb, lf, lk] \<and>
     l_name lb = ''TriLamp-Back'' \<and> l_name lf = ''TriLamp-Fill'' \<and> l_name lk = ''TriLamp-Key'' \<and>
     (pre = objects (scene_with_camera front) \<or>
      pre = objects (scene_with_camera front) @ [\<lparr>o_name = ''Camera'', o_data = Camera_data (length (cameras (scene_with_camera front))),
                           o_location = view_location view3d_context, o_constraints = []\<rparr>]) \<and>
     objects (lamps_state defaults 0 origin front (scene_with_camera front)) = pre @ [b_obj, f_obj, k_obj] \<and>
     o_name b_obj = ''TriLamp-Back'' \<and> o_name f_obj = ''TriLamp-Fill'' \<and>
     o_name k_obj = ''TriLamp-Key'' \<and>
     o_data b_obj = Light_data (length (lights (scene_with_camera front))) \<and>
     o_data f_obj = Light_data (length (lights (scene_with_camera front)) + 1) \<and>
     o_data k_obj = Light_data (length (lights (scene_with_camera front)) + 2) \<and>
     o_constraints b_obj = [\<lparr>c_type = ''TRACK_TO'', c_target = active view3d_context,
        c_track_axis = Some ''TRACK_NEGATIVE_Z'', c_up_axis = Some ''UP_Y''\<rparr>] \<and>
     o_constraints f_obj = [\<lparr>c_type = ''TRACK_TO'', c_target = active view3d_context,
        c_track_axis = Some ''TRACK_NEGATIVE_Z'', c_up_axis = Some ''UP_Y''\<rparr>] \<and>
     o_constraints k_obj = [\<lparr>c_type = ''TRACK_TO'', c_target = active view3d_context,
        c_track_axis = Some ''TRACK_NEGATIVE_Z'', c_up_axis = Some ''UP_Y''\<rparr>] \<and>
     (col = collection_objects (scene_with_camera front) \<or> col = collection_objects (scene_with_camera front) @ [length (objects (scene_with_camera front))]) \<and>
     collection_objects (lamps_state defaults 0 origin front (scene_with_camera front)) = col @ [length pre, length pre + 1, length pre + 2])"
proof -
  note h = front_execute [of defaults]
  from h three_tracking_lamps [OF h] show ?thesis
    by (rule conjI)
qed

text \<open>
  C3 (position formula). In a run that finishes, with the object position and the
  camera position read after the camera was found or created, and (dx, dy) the x and y
  of the delta vector divided by its length in three dimensions: the lamps Back, Fill
  and Key are the last three objects and stand at
  (object.x + distance * rx, object.y + distance * ry, height), where
  rx = cos(a)*dx - sin(a)*dy and ry = sin(a)*dx + cos(a)*dy for the angle a of
  backangle, rightangle and -leftangle degrees. The z of every lamp is the height; the
  z of the object and of the camera enter through the length only.
\<close>

theorem lamp_positions:
  assumes "execute self ctx s = (FINISHED, s')"
  shows "\<exists>camera s1 obj.
     get_camera ctx s = (Inr camera, s1) \<and> active ctx = Some obj \<and>
     obj < length (objects s1) \<and> camera < length (objects s1) \<and>
     (let obj_position = o_location (objects s1 ! obj);
          cam_position = o_location (objects s1 ! camera);
          len = sqrt ((vec_x cam_position - vec_x obj_position)\<^sup>2 +
                      (vec_y cam_position - vec_y obj_position)\<^sup>2 +
                      (vec_z cam_position - vec_z obj_position)\<^sup>2);
          dx = (vec_x cam_position - vec_x obj_position) / len;
          dy = (vec_y cam_position - vec_y obj_position) / len;
          place = (\<lambda>a. \<lparr>vec_x = vec_x obj_position + distance self * (cos a * dx - sin a * dy),
                         vec_y = vec_y obj_position + distance self * (sin a * dx + cos a * dy),
                         vec_z = height self\<rparr>);
          n = length (objects s1)
      in len \<noteq> 0 \<and> length (objects s') = n + 3 \<and>
         o_name (objects s' ! n) = ''TriLamp-Back'' \<and>
         o_location (objects s' ! n) = place (of_int (backangle self) * pi / 180) \<and>
         o_name (objects s' ! (n + 1)) = ''TriLamp-Fill'' \<and>
         o_location (objects s' ! (n + 1)) = place (of_int (rightangle self) * pi / 180) \<and>
         o_name (objects s' ! (n + 2)) = ''TriLamp-Key'' \<and>
         o_location (objects s' ! (n + 2)) = place (of_int (- leftangle self) * pi / 180))"
  using assms
proof (rule execute_FINISHED)
  fix camera s1 obj
  assume c: "get_camera ctx s = (Inr camera, s1)" and a: "active ctx = Some obj"
    and lo: "obj < length (objects s1)" and lc: "camera < length (objects s1)"
    and nz: "vector_length (vec_sub (o_location (objects s1 ! camera))
               (o_location (objects s1 ! obj))) \<noteq> 0"
    and s': "s' = lamps_state self obj (o_location (objects s1 ! obj))
                    (o_location (objects s1 ! camera)) s1"
  have nth: "(xs @ [p, q, r]) ! length xs = p" "(xs @ [p, q, r]) ! Suc (length xs) = q"
    "(xs @ [p, q, r]) ! Suc (Suc (length xs)) = r" for xs :: "object list" and p q r
    by (simp_all add: nth_append)
  show ?thesis
    apply (rule exI [of _ camera])
    apply (rule exI [of _ s1])
    apply (rule exI [of _ obj])
    using c a lo lc nz s'
    by (simp add: lamps_state_def Let_def lamp_object_def lamp_location_def rotate_xy_def
        single_vector_of_def vec_scale_def vec_sub_def vector_length_def radians_def nth
        algebra_simps)
qed

theorem lamp_positions_witness:
  "execute defaults view3d_context (scene_with_camera front) =
     (FINISHED, lamps_state defaults 0 origin front (scene_with_camera front)) \<and>
   (\<exists>camera s1 obj.
     get_camera view3d_context (scene_with_camera front) = (Inr camera, s1) \<and> active view3d_context = Some obj \<and>
     obj < length (objects s1) \<and> camera < length (objects s1) \<and>
     (let obj_position = o_location (objects s1 ! obj);
          cam_position = o_location (objects s1 ! camera);
          len = sqrt ((vec_x cam_position - vec_x obj_position)\<^sup>2 +
                      (vec_y cam_position - vec_y obj_position)\<^sup>2 +
                      (vec_z cam_position - vec_z obj_position)\<^sup>2);
          dx = (vec_x cam_position - vec_x obj_position) / len;
          dy = (vec_y cam_position - vec_y obj_position) / len;
          place = (\<lambda>a. \<lparr>vec_x = vec_x obj_position + distance defaults * (cos a * dx - sin a * dy),
                         vec_y = vec_y obj_position + distance defaults * (sin a * dx + cos a * dy),
                         vec_z = height defaults\<rparr>);
          n = length (objects s1)
      in len \<noteq> 0 \<and> length (objects (lamps_state defaults 0 origin front (scene_with_camera front))) = n + 3 \<and>
         o_name (objects (lamps_state defaults 0 origin front (scene_with_camera front)) ! n) = ''TriLamp-Back'' \<and>
         o_location (objects (lamps_state defaults 0 origin front (scene_with_camera front)) ! n) = place (of_int (backangle defaults) * pi / 180) \<and>
         o_name (objects (lamps_state defaults 0 origin front (scene_with_camera front)) ! (n + 1)) = ''TriLamp-Fill'' \<and>
         o_location (objects (lamps_state defaults 0 origin front (scene_with_camera front)) ! (n + 1)) = place (of_int (rightangle defaults) * pi / 180) \<and>
         o_name (objects (lamps_state defaults 0 origin front (scene_with_camera front)) ! (n + 2)) = ''TriLamp-Key'' \<and>
         o_location (objects (lamps_state defaults 0 origin front (scene_with_camera front)) ! (n + 2)) = place (of_int (- leftangle defaults) * pi / 180)))"
proof -
  note h = front_execute [of defaults]
  from h lamp_positions [OF h] show ?thesis
    by (rule conjI)
qed

text \<open>
  C4 (end-to-end example). The operator at its defaults (distance 5, height 5, left
  angle 26, right angle 45, back angle 235, energy 3, contrast 50), on a scene whose
  active object is at (0,0,0) and whose camera is at (0,-5,0), finishes. The direction
  vector is (0,-1,0); the key energy is 3, the fill and back energies are 3/2; the key
  lamp stands at 5 times the rotation of (0,-1,0) by -26 degrees, at height 5, which is
  (-5 sin 26 deg, -5 cos 26 deg, 5); each of the three lamps has one TRACK_TO constraint
  whose target is the active object, which is at (0,0,0).
\<close>

theorem end_to_end_example:
  "fst (execute defaults view3d_context (scene_with_camera front)) = FINISHED \<and>
   active view3d_context = Some 0 \<and>
   map o_location (objects (scene_with_camera front)) =
     [\<lparr>vec_x = 0, vec_y = 0, vec_z = 0\<rparr>, \<lparr>vec_x = 0, vec_y = - 5, vec_z = 0\<rparr>] \<and>
   single_vector_of \<lparr>vec_x = 0, vec_y = 0, vec_z = 0\<rparr> \<lparr>vec_x = 0, vec_y = - 5, vec_z = 0\<rparr> =
     \<lparr>vec_x = 0, vec_y = - 1, vec_z = 0\<rparr> \<and>
   map l_name (lights (snd (execute defaults view3d_context (scene_with_camera front)))) =
     [''TriLamp-Back'', ''TriLamp-Fill'', ''TriLamp-Key''] \<and>
   map l_energy (lights (snd (execute defaults view3d_context (scene_with_camera front)))) =
     [Some (3 / 2), Some (3 / 2), Some 3] \<and>
   map o_name (objects (snd (execute defaults view3d_context (scene_with_camera front)))) =
     [''Cube'', ''Camera'', ''TriLamp-Back'', ''TriLamp-Fill'', ''TriLamp-Key''] \<and>
   o_location (objects (snd (execute defaults view3d_context (scene_with_camera front))) ! 4) =
     \<lparr>vec_x = 0 + 5 * vec_x (rotate_xy (radians (- 26)) \<lparr>vec_x = 0, vec_y = - 1, vec_z = 0\<rparr>),
      vec_y = 0 + 5 * vec_y (rotate_xy (radians (- 26)) \<lparr>vec_x = 0, vec_y = - 1, vec_z = 0\<rparr>),
      vec_z = 5\<rparr> \<and>
   o_location (objects (snd (execute defaults view3d_context (scene_with_camera front))) ! 4) =
     \<lparr>vec_x = - 5 * sin (26 * pi / 180), vec_y = - 5 * cos (26 * pi / 180), vec_z = 5\<rparr> \<and>
   map o_constraints
     (drop 2 (objects (snd (execute defaults view3d_context (scene_with_camera front))))) =
     replicate 3 [\<lparr>c_type = ''TRACK_TO'', c_target = Some 0,
                    c_track_axis = Some ''TRACK_NEGATIVE_Z'', c_up_axis = Some ''UP_Y''\<rparr>]"
proof -
  have d: "single_vector_of \<lparr>vec_x = 0, vec_y = 0, vec_z = 0\<rparr> \<lparr>vec_x = 0, vec_y = - 5, vec_z = 0\<rparr> =
     \<lparr>vec_x = 0, vec_y = - 1, vec_z = 0\<rparr>"
    by (simp add: single_vector_of_def vec_scale_def vec_sub_def vector_length_def sqrt_25)
  have r: "radians (- 26) = - (26 * pi / 180)"
    by (simp add: radians_def)
  have three: "replicate 3 x = [x, x, x]" for x :: "constraint list"
    by (simp add: numeral_3_eq_3)
  let ?S = "lamps_state defaults 0 origin front (scene_with_camera front)"
  have e: "execute defaults view3d_context (scene_with_camera front) = (FINISHED, ?S)"
    by (rule front_execute)
  have o: "origin = \<lparr>vec_x = 0, vec_y = 0, vec_z = 0\<rparr>" "front = \<lparr>vec_x = 0, vec_y = - 5, vec_z = 0\<rparr>"
    by (simp_all add: origin_def front_def)
  have a: "active view3d_context = Some 0"
    by (simp add: view3d_context_def)
  have before: "map o_location (objects (scene_with_camera front)) =
     [\<lparr>vec_x = 0, vec_y = 0, vec_z = 0\<rparr>, \<lparr>vec_x = 0, vec_y = - 5, vec_z = 0\<rparr>]"
    by (simp add: scene_with_camera_def cube_def camera_object_def o)
  have l: "lights ?S =
     [back_light defaults, fill_light defaults, key_light defaults]"
    by (simp add: lamps_state_def Let_def scene_with_camera_def)
  have names: "map l_name (lights ?S) = [''TriLamp-Back'', ''TriLamp-Fill'', ''TriLamp-Key'']"
    by (simp add: l back_light_def fill_light_def key_light_def lamp_light_def)
  have en: "map l_energy (lights ?S) = [Some (3 / 2), Some (3 / 2), Some 3]"
    unfolding l
    by (simp add: back_light_def fill_light_def key_light_def lamp_light_def energies_def
        defaults_def)
  have ob: "objects ?S =
     [cube, camera_object 0 front,
      lamp_object ''TriLamp-Back'' 0
        (lamp_location defaults (of_int (backangle defaults)) \<lparr>vec_x = 0, vec_y = - 1, vec_z = 0\<rparr> origin)
        [track_to 0],
      lamp_object ''TriLamp-Fill'' 1
        (lamp_location defaults (of_int (rightangle defaults)) \<lparr>vec_x = 0, vec_y = - 1, vec_z = 0\<rparr> origin)
        [track_to 0],
      lamp_object ''TriLamp-Key'' 2
        (lamp_location defaults (of_int (- leftangle defaults)) \<lparr>vec_x = 0, vec_y = - 1, vec_z = 0\<rparr> origin)
        [track_to 0]]"
    using d by (simp add: lamps_state_def Let_def scene_with_camera_def o numeral_2_eq_2)
  have onames: "map o_name (objects ?S) =
     [''Cube'', ''Camera'', ''TriLamp-Back'', ''TriLamp-Fill'', ''TriLamp-Key'']"
    by (simp add: ob cube_def camera_object_def lamp_object_def)
  have key: "o_location (objects ?S ! 4) =
     lamp_location defaults (- 26) \<lparr>vec_x = 0, vec_y = - 1, vec_z = 0\<rparr> origin"
    unfolding ob by (simp add: lamp_object_def defaults_def)
  have key1: "o_location (objects ?S ! 4) =
     \<lparr>vec_x = 0 + 5 * vec_x (rotate_xy (radians (- 26)) \<lparr>vec_x = 0, vec_y = - 1, vec_z = 0\<rparr>),
      vec_y = 0 + 5 * vec_y (rotate_xy (radians (- 26)) \<lparr>vec_x = 0, vec_y = - 1, vec_z = 0\<rparr>),
      vec_z = 5\<rparr>"
    unfolding key by (simp add: lamp_location_def defaults_def o)
  have key2: "o_location (objects ?S ! 4) =
     \<lparr>vec_x = - 5 * sin (26 * pi / 180), vec_y = - 5 * cos (26 * pi / 180), vec_z = 5\<rparr>"
    unfolding key1 by (simp add: rotate_xy_def r)
  have cs: "map o_constraints (drop 2 (objects ?S)) =
     replicate 3 [\<lparr>c_type = ''TRACK_TO'', c_target = Some 0,
                    c_track_axis = Some ''TRACK_NEGATIVE_Z'', c_up_axis = Some ''UP_Y''\<rparr>]"
    by (simp add: ob three lamp_object_def track_to_def)
  show ?thesis
    unfolding e fst_conv snd_conv
    by (intro conjI refl a before d names en onames key1 key2 cs)
qed

lemma execute_try_extends:
  assumes "execute_try self ctx s = (r, s')"
  shows "extends s s'"
proof -
  have tail: "extends a b" if "(case active ctx of
         None \<Rightarrow> raise ''AttributeError: NoneType object has no attribute location''
       | Some obj \<Rightarrow>
           and_then (location_of obj) (\<lambda>obj_position.
           and_then (location_of camera) (\<lambda>cam_position.
           place_lamps ctx self obj obj_position cam_position))) a = (q, b)"
    for camera a q b
    using that
    by (auto simp: raise_def and_then_def location_of_def extends_refl
        split: option.splits if_splits intro: place_lamps_extends)
  from assms show ?thesis
    unfolding execute_try_def
    by (rule and_then_preserves [where R = extends, rotated 3])
      (blast intro: get_camera_extends tail extends_trans)+
qed

lemma failing_place_lamps:
  "place_lamps failing_context defaults 0 origin front (scene_with_camera front) =
     (Inl ''RuntimeError'', fill_failed)"
  using front_length
  by (simp add: place_lamps_def and_then_def add_lamp_eq failing_context_def view3d_context_def
      Let_def back_light_def fill_light_def single_vector_of_def scene_with_camera_def
      fill_failed_def numeral_2_eq_2 numeral_3_eq_3 split: prod.splits)

lemma failing_execute_try:
  "execute_try defaults failing_context (scene_with_camera front) =
     (Inl ''RuntimeError'', fill_failed)"
proof -
  have "get_camera failing_context (scene_with_camera front) = (Inr 1, scene_with_camera front)"
    by (simp add: get_camera_def failing_context_def view3d_context_def)
  moreover have "active failing_context = Some 0"
    by (simp add: failing_context_def view3d_context_def)
  moreover have "location_of 0 (scene_with_camera front) = (Inr origin, scene_with_camera front)"
    "location_of 1 (scene_with_camera front) = (Inr front, scene_with_camera front)"
    by (simp_all add: location_of_def scene_with_camera_def cube_def camera_object_def)
  ultimately show ?thesis
    by (simp add: execute_try_def and_then_def failing_place_lamps)
qed

text \<open>
  C9 (generic exceptions). When the body of the try statement raises an exception e,
  leaving the scene in the state s1 it had reached, the operator returns CANCELLED, and
  its final state is s1 with the warning "Some operations could not be performed (See
  Console for more info)" added to the reports and the message holding e added to the
  console: nothing of s1 is undone. Every camera, light, object, link, report and console
  line of the initial state is still in s1, in its place, followed by what the run
  created before the exception. (The degenerate exit raises no exception: it returns
  from inside the body.)
\<close>

theorem exception_handling:
  assumes "execute_try self ctx s = (Inl e, s1)"
  shows "execute self ctx s =
           (CANCELLED,
            s1\<lparr>reports := reports s1 @
                  [(''WARNING'', ''Some operations could not be performed (See Console for more info)'')],
               console := console s1 @
                  [[CHR 0x0A] @ ''[Add Advanced  Objects]'' @ [CHR 0x0A] @
                   ''Operator: object.trilighting'' @ [CHR 0x0A] @ ''Error: '' @ e]\<rparr>) \<and>
         lights (snd (execute self ctx s)) = lights s1 \<and>
         objects (snd (execute self ctx s)) = objects s1 \<and>
         cameras (snd (execute self ctx s)) = cameras s1 \<and>
         collection_objects (snd (execute self ctx s)) = collection_objects s1 \<and>
         scene_camera (snd (execute self ctx s)) = scene_camera s1 \<and>
         extends s s1"
  using assms execute_try_extends [OF assms]
  by (simp add: execute_def console_message_def)

theorem exception_handling_witness:
  "execute_try defaults failing_context (scene_with_camera front) =
     (Inl ''RuntimeError'', fill_failed) \<and>
   execute defaults failing_context (scene_with_camera front) =
     (CANCELLED,
      fill_failed\<lparr>reports :=
          [(''WARNING'', ''Some operations could not be performed (See Console for more info)'')],
        console :=
          [[CHR 0x0A] @ ''[Add Advanced  Objects]'' @ [CHR 0x0A] @
           ''Operator: object.trilighting'' @ [CHR 0x0A] @ ''Error: RuntimeError'']\<rparr>) \<and>
   lights (scene_with_camera front) = [] \<and>
   map l_name (lights fill_failed) = [''TriLamp-Back'', ''TriLamp-Fill''] \<and>
   map o_name (objects fill_failed) = [''Cube'', ''Camera'', ''TriLamp-Back'', ''TriLamp-Fill''] \<and>
   map o_constraints (objects fill_failed) = [[], [], [track_to 0], []] \<and>
   extends (scene_with_camera front) fill_failed"
proof -
  have r: "reports fill_failed = []" "console fill_failed = []"
    by (simp_all add: fill_failed_def scene_with_camera_def)
  have l: "lights (scene_with_camera front) = []"
    by (simp add: scene_with_camera_def)
  have n: "map l_name (lights fill_failed) = [''TriLamp-Back'', ''TriLamp-Fill'']"
    by (simp add: fill_failed_def back_light_def fill_light_def lamp_light_def)
  have ob: "map o_name (objects fill_failed) = [''Cube'', ''Camera'', ''TriLamp-Back'', ''TriLamp-Fill'']"
    "map o_constraints (objects fill_failed) = [[], [], [track_to 0], []]"
    by (simp_all add: fill_failed_def cube_def camera_object_def lamp_object_def)
  from exception_handling [OF failing_execute_try] failing_execute_try l n ob show ?thesis
    by (simp add: r)
qed

lemma vector_length_zero: "vector_length (vec_sub a b) = 0 \<longleftrightarrow> a = b"
proof -
  have "(vec_x a - vec_x b)\<^sup>2 + (vec_y a - vec_y b)\<^sup>2 + (vec_z a - vec_z b)\<^sup>2 = 0 \<longleftrightarrow>
        vec_x a = vec_x b \<and> vec_y a = vec_y b \<and> vec_z a = vec_z b"
    by (simp add: add_nonneg_eq_0_iff)
  then show ?thesis
    by (auto simp: vector_length_def vec_sub_def)
qed

lemma place_lamps_degenerate:
  "vector_length (vec_sub cam_position obj_position) = 0 \<Longrightarrow>
   place_lamps ctx self obj obj_position cam_position s =
     (Inr CANCELLED,
      s\<lparr>reports := reports s @
            [(''WARNING'', ''Operation Cancelled. No viable object in the scene'')]\<rparr>)"
  by (simp add: place_lamps_def and_then_def report_def return_def split: prod.splits)

lemma place_lamps_nondegenerate:
  assumes "vector_length (vec_sub cam_position obj_position) \<noteq> 0"
    and "place_lamps ctx self obj obj_position cam_position s = (r, s')"
  shows "reports s' = reports s" and "r \<noteq> Inr CANCELLED"
  using assms
  by (auto simp: place_lamps_def and_then_def add_lamp_eq return_def Let_def
      split: prod.splits option.splits)

lemma degenerate_execute:
  assumes "get_camera ctx s = (Inr camera, s1)" "active ctx = Some obj"
    "obj < length (objects s1)" "camera < length (objects s1)"
  shows "execute self ctx s =
           (CANCELLED,
            s1\<lparr>reports := reports s1 @
                  [(''WARNING'', ''Operation Cancelled. No viable object in the scene'')]\<rparr>)
         \<longleftrightarrow> o_location (objects s1 ! camera) = o_location (objects s1 ! obj)"
proof (cases "o_location (objects s1 ! camera) = o_location (objects s1 ! obj)")
  case True
  then have "vector_length (vec_sub (o_location (objects s1 ! camera))
               (o_location (objects s1 ! obj))) = 0"
    by (simp add: vector_length_zero)
  from place_lamps_degenerate [OF this] True show ?thesis
    by (simp add: execute_after_camera [OF assms])
next
  case False
  then have nz: "vector_length (vec_sub (o_location (objects s1 ! camera))
               (o_location (objects s1 ! obj))) \<noteq> 0"
    by (simp add: vector_length_zero)
  obtain r s2 where p: "place_lamps ctx self obj (o_location (objects s1 ! obj))
             (o_location (objects s1 ! camera)) s1 = (r, s2)"
    by (cases "place_lamps ctx self obj (o_location (objects s1 ! obj))
             (o_location (objects s1 ! camera)) s1") auto
  from place_lamps_nondegenerate [OF nz p] have
    "reports s2 = reports s1" "r \<noteq> Inr CANCELLED" .
  moreover have "reports (snd (execute self ctx s)) =
     (case r of Inr st \<Rightarrow> reports s2 | Inl e \<Rightarrow> reports s2 @
       [(''WARNING'', ''Some operations could not be performed (See Console for more info)'')])"
    "fst (execute self ctx s) = (case r of Inr st \<Rightarrow> st | Inl e \<Rightarrow> CANCELLED)"
    by (simp_all add: execute_after_camera [OF assms] p split: sum.splits)
  ultimately have "execute self ctx s \<noteq>
           (CANCELLED,
            s1\<lparr>reports := reports s1 @
                  [(''WARNING'', ''Operation Cancelled. No viable object in the scene'')]\<rparr>)"
    by (cases r) auto
  with False show ?thesis by simp
qed

text \<open>
  C2 (degenerate geometry), as the code has it. When the camera found or created for
  the run stands at the position of the active object, the operator reports the warning
  "Operation Cancelled. No viable object in the scene", returns CANCELLED, and creates
  no light and no constraint. When the context had a camera, the scene is left as it
  was (the report is all that is added). When it had none, the camera created before
  the check stays: its datablock, its object at the viewpoint, its link to the
  collection and the scene's camera reference.
\<close>

theorem degenerate_cancel:
  assumes "get_camera ctx s = (Inr camera, s1)" and "active ctx = Some obj"
    and "obj < length (objects s1)" and "camera < length (objects s1)"
    and "o_location (objects s1 ! camera) = o_location (objects s1 ! obj)"
  shows "execute self ctx s =
           (CANCELLED,
            s1\<lparr>reports := reports s1 @
                  [(''WARNING'', ''Operation Cancelled. No viable object in the scene'')]\<rparr>) \<and>
         lights s1 = lights s \<and>
         concat (map o_constraints (objects s1)) = concat (map o_constraints (objects s)) \<and>
         (if context_camera ctx s = None
          then s1 = s\<lparr>cameras := cameras s @ [''Camera''],
                      objects := objects s @
                        [\<lparr>o_name = ''Camera'', o_data = Camera_data (length (cameras s)),
                          o_location = view_location ctx, o_constraints = []\<rparr>],
                      collection_objects := collection_objects s @ [length (objects s)],
                      scene_camera := Some (length (objects s)),
                      camera_view := False\<rparr>
          else s1 = s)"
proof -
  have "execute self ctx s =
           (CANCELLED,
            s1\<lparr>reports := reports s1 @
                  [(''WARNING'', ''Operation Cancelled. No viable object in the scene'')]\<rparr>)"
    using degenerate_execute [OF assms(1-4), of self] assms(5) by simp
  moreover have "lights s1 = lights s"
    by (rule get_camera_lights [OF assms(1)])
  moreover from get_camera_Inr [OF assms(1)] have
    "concat (map o_constraints (objects s1)) = concat (map o_constraints (objects s))"
    by (auto simp: camera_state_def camera_object_def)
  moreover from get_camera_Inr [OF assms(1)] have
    "if context_camera ctx s = None
          then s1 = s\<lparr>cameras := cameras s @ [''Camera''],
                      objects := objects s @
                        [\<lparr>o_name = ''Camera'', o_data = Camera_data (length (cameras s)),
                          o_location = view_location ctx, o_constraints = []\<rparr>],
                      collection_objects := collection_objects s @ [length (objects s)],
                      scene_camera := Some (length (objects s)),
                      camera_view := False\<rparr>
          else s1 = s"
    by (auto simp: camera_state_def camera_object_def)
  ultimately show ?thesis by blast
qed

theorem degenerate_cancel_witness:
  "get_camera view3d_context (scene_with_camera origin) = (Inr 1, scene_with_camera origin) \<and>
   active view3d_context = Some 0 \<and>
   0 < length (objects (scene_with_camera origin)) \<and>
   1 < length (objects (scene_with_camera origin)) \<and>
   o_location (objects (scene_with_camera origin) ! 1) =
     o_location (objects (scene_with_camera origin) ! 0) \<and>
   execute defaults view3d_context (scene_with_camera origin) =
     (CANCELLED,
      (scene_with_camera origin)
        \<lparr>reports := [(''WARNING'', ''Operation Cancelled. No viable object in the scene'')]\<rparr>)"
proof -
  have c: "get_camera view3d_context (scene_with_camera origin) = (Inr 1, scene_with_camera origin)"
    by (rule example_camera)
  have a: "active view3d_context = Some 0"
    by (simp add: view3d_context_def)
  have l: "0 < length (objects (scene_with_camera origin))"
    "1 < length (objects (scene_with_camera origin))"
    by (simp_all add: scene_with_camera_def)
  have e: "o_location (objects (scene_with_camera origin) ! 1) =
     o_location (objects (scene_with_camera origin) ! 0)"
    by (simp add: scene_with_camera_def cube_def camera_object_def)
  have r: "reports (scene_with_camera origin) = []"
    by (simp add: scene_with_camera_def)
  from degenerate_cancel [OF c a l e, of defaults] c a l e show ?thesis
    by (simp add: r)
qed

text \<open>
  C2 as it is written fails: on a scene that has no camera, seen from a viewpoint
  at the active object's own place, the run is cancelled by the degenerate check and
  reports its warning, but the scene now has a camera datablock and a camera object,
  linked to the collection and made the scene's camera, that it did not have before.
\<close>

theorem degenerate_atomicity_counterexample:
  "execute defaults context_without_camera scene_without_camera =
     (CANCELLED,
      \<lparr>cameras = [''Camera''], lights = [],
       objects = [cube, \<lparr>o_name = ''Camera'', o_data = Camera_data 0,
                         o_location = origin, o_constraints = []\<rparr>],
       collection_objects = [0, 1], scene_camera = Some 1, camera_view = False,
       reports = [(''WARNING'', ''Operation Cancelled. No viable object in the scene'')],
       console = []\<rparr>) \<and>
   o_location cube = origin \<and>
   objects scene_without_camera = [cube] \<and>
   cameras scene_without_camera = [] \<and>
   collection_objects scene_without_camera = [0] \<and>
   scene_camera scene_without_camera = None \<and>
   objects (snd (execute defaults context_without_camera scene_without_camera)) \<noteq>
     objects scene_without_camera"
proof -
  let ?s1 = "camera_state context_without_camera scene_without_camera"
  have c: "get_camera context_without_camera scene_without_camera = (Inr 1, ?s1)"
    by (simp add: get_camera_def new_camera_eq context_without_camera_def
        scene_without_camera_def Let_def)
  have a: "active context_without_camera = Some 0"
    by (simp add: context_without_camera_def)
  have o: "objects ?s1 = [cube, camera_object 0 origin]"
    by (simp add: camera_state_def scene_without_camera_def context_without_camera_def)
  have l: "0 < length (objects ?s1)" "1 < length (objects ?s1)"
    by (simp_all add: o)
  have e: "o_location (objects ?s1 ! 1) = o_location (objects ?s1 ! 0)"
    by (simp add: o cube_def camera_object_def)
  have x: "execute defaults context_without_camera scene_without_camera =
     (CANCELLED, ?s1\<lparr>reports := reports ?s1 @
        [(''WARNING'', ''Operation Cancelled. No viable object in the scene'')]\<rparr>)"
    using degenerate_execute [OF c a l, of defaults] e by simp
  show ?thesis
    unfolding x
    by (simp add: camera_state_def scene_without_camera_def context_without_camera_def
        camera_object_def cube_def)
qed

lemma rotation_norm:
  fixes c s x y :: real
  assumes "s * s + c * c = 1"
  shows "(c * x - s * y)\<^sup>2 + (s * x + c * y)\<^sup>2 = x\<^sup>2 + y\<^sup>2"
proof -
  have "(c * x - s * y)\<^sup>2 + (s * x + c * y)\<^sup>2 = (s * s + c * c) * (x\<^sup>2 + y\<^sup>2)"
    by (simp add: power2_eq_square algebra_simps)
  with assms show ?thesis by simp
qed

lemma single_vector_unit:
  assumes "vector_length (vec_sub cam_position obj_position) \<noteq> 0"
  shows "(vec_x (single_vector_of obj_position cam_position))\<^sup>2 +
         (vec_y (single_vector_of obj_position cam_position))\<^sup>2 +
         (vec_z (single_vector_of obj_position cam_position))\<^sup>2 = 1"
proof -
  let ?d = "vec_sub cam_position obj_position"
  let ?q = "(vec_x ?d)\<^sup>2 + (vec_y ?d)\<^sup>2 + (vec_z ?d)\<^sup>2"
  have q: "0 \<le> ?q" by simp
  have l: "(vector_length ?d)\<^sup>2 = ?q"
    unfolding vector_length_def by (rule real_sqrt_pow2 [OF q])
  have e: "(vec_x (single_vector_of obj_position cam_position))\<^sup>2 +
         (vec_y (single_vector_of obj_position cam_position))\<^sup>2 +
         (vec_z (single_vector_of obj_position cam_position))\<^sup>2 = ?q / (vector_length ?d)\<^sup>2"
    by (simp add: single_vector_of_def vec_scale_def power_divide add_divide_distrib)
  from assms have "(vector_length ?d)\<^sup>2 \<noteq> 0"
    by simp
  with l have "?q \<noteq> 0"
    by simp
  then have "?q / ?q = 1"
    by (rule divide_self)
  then show ?thesis
    by (simp only: e l)
qed

lemma lamp_offset:
  fixes self :: tri_lighting and angle :: real
  assumes nz: "vector_length (vec_sub cam_position obj_position) \<noteq> 0"
    and dist: "0 < distance self"
  defines "d \<equiv> single_vector_of obj_position cam_position"
  defines "l \<equiv> lamp_location self angle d obj_position"
  defines "off \<equiv> sqrt ((vec_x l - vec_x obj_position)\<^sup>2 + (vec_y l - vec_y obj_position)\<^sup>2)"
  shows "off = distance self * sqrt ((vec_x d)\<^sup>2 + (vec_y d)\<^sup>2)"
    and "off \<le> distance self"
    and "vec_z cam_position \<noteq> vec_z obj_position \<Longrightarrow> off < distance self"
    and "vec_x cam_position = vec_x obj_position \<Longrightarrow> vec_y cam_position = vec_y obj_position \<Longrightarrow>
         vec_x l = vec_x obj_position \<and> vec_y l = vec_y obj_position"
    and "vec_z l = height self"
proof -
  let ?a = "radians angle"
  have sc: "sin ?a * sin ?a + cos ?a * cos ?a = 1"
    using sin_cos_squared_add [of ?a] by (simp add: power2_eq_square)
  have x: "vec_x l - vec_x obj_position = distance self * (cos ?a * vec_x d - sin ?a * vec_y d)"
    and y: "vec_y l - vec_y obj_position = distance self * (sin ?a * vec_x d + cos ?a * vec_y d)"
    by (simp_all add: l_def lamp_location_def rotate_xy_def)
  have "(vec_x l - vec_x obj_position)\<^sup>2 + (vec_y l - vec_y obj_position)\<^sup>2 =
        (distance self)\<^sup>2 * ((cos ?a * vec_x d - sin ?a * vec_y d)\<^sup>2 +
                               (sin ?a * vec_x d + cos ?a * vec_y d)\<^sup>2)"
    unfolding x y by (simp add: power2_eq_square algebra_simps)
  also have "\<dots> = (distance self)\<^sup>2 * ((vec_x d)\<^sup>2 + (vec_y d)\<^sup>2)"
    by (simp only: rotation_norm [OF sc])
  finally have "off = sqrt ((distance self)\<^sup>2 * ((vec_x d)\<^sup>2 + (vec_y d)\<^sup>2))"
    by (simp add: off_def)
  with dist show off: "off = distance self * sqrt ((vec_x d)\<^sup>2 + (vec_y d)\<^sup>2)"
    by (simp add: real_sqrt_mult)
  have unit: "(vec_x d)\<^sup>2 + (vec_y d)\<^sup>2 + (vec_z d)\<^sup>2 = 1"
    unfolding d_def by (rule single_vector_unit [OF nz])
  then have "(vec_x d)\<^sup>2 + (vec_y d)\<^sup>2 \<le> 1"
    using zero_le_power2 [of "vec_z d"] by linarith
  then have "sqrt ((vec_x d)\<^sup>2 + (vec_y d)\<^sup>2) \<le> 1"
    by simp
  with dist show "off \<le> distance self"
    unfolding off by (simp add: mult_left_le)
  show "off < distance self" if "vec_z cam_position \<noteq> vec_z obj_position"
  proof -
    from that nz have "vec_z d \<noteq> 0"
      by (simp add: d_def single_vector_of_def vec_scale_def vec_sub_def)
    then have "0 < (vec_z d)\<^sup>2" by simp
    with unit have "(vec_x d)\<^sup>2 + (vec_y d)\<^sup>2 < 1" by linarith
    then have "sqrt ((vec_x d)\<^sup>2 + (vec_y d)\<^sup>2) < 1" by simp
    with dist show ?thesis
      unfolding off by simp
  qed
  show "vec_x l = vec_x obj_position \<and> vec_y l = vec_y obj_position"
    if "vec_x cam_position = vec_x obj_position" "vec_y cam_position = vec_y obj_position"
    using that
    by (simp add: l_def d_def lamp_location_def rotate_xy_def single_vector_of_def
        vec_scale_def vec_sub_def)
  show "vec_z l = height self"
    by (simp add: l_def lamp_location_def)
qed

lemma overhead_length: "vector_length (vec_sub overhead origin) = 3"
  using real_sqrt_abs [of 3] by (simp add: vector_length_def vec_sub_def origin_def overhead_def)

lemma overhead_execute:
  "execute self view3d_context (scene_with_camera overhead) =
     (FINISHED, lamps_state self 0 origin overhead (scene_with_camera overhead))"
  by (rule example_execute) (simp add: overhead_length)

text \<open>
  C10 (camera overhead or below the object). With the object position and the camera
  position as the run reads them, after the camera was found or created, and a distance
  in the range of its property (at least 0.1):
  the run ends in the degenerate cancellation exactly when the length of the delta
  vector in three dimensions is zero, which is exactly when the two positions are
  equal; with a host that raises nowhere, a run from two different positions finishes,
  also when they differ in z only; and in a run that finishes, the three lamps are the
  objects created last and each of them has a horizontal offset from the object of
  magnitude distance * sqrt(dx^2 + dy^2), where (dx, dy) are the x and y of the
  normalised delta vector, which is at most the distance, strictly less when the camera
  and the object differ in z, and zero in x and in y when they differ in z only: then
  the three lamps stand at (object.x, object.y, height), at one place.
\<close>

theorem camera_above_object:
  assumes "get_camera ctx s = (Inr camera, s1)" and "active ctx = Some obj"
    and "obj < length (objects s1)" and "camera < length (objects s1)"
    and "o_location (objects s1 ! obj) = obj_position"
    and "o_location (objects s1 ! camera) = cam_position"
    and "1 / 10 \<le> distance self"
  shows
    "((execute self ctx s =
         (CANCELLED,
          s1\<lparr>reports := reports s1 @
                [(''WARNING'', ''Operation Cancelled. No viable object in the scene'')]\<rparr>)) =
      (sqrt ((vec_x cam_position - vec_x obj_position)\<^sup>2 +
             (vec_y cam_position - vec_y obj_position)\<^sup>2 +
             (vec_z cam_position - vec_z obj_position)\<^sup>2) = 0)) \<and>
     ((sqrt ((vec_x cam_position - vec_x obj_position)\<^sup>2 +
             (vec_y cam_position - vec_y obj_position)\<^sup>2 +
             (vec_z cam_position - vec_z obj_position)\<^sup>2) = 0) =
      (cam_position = obj_position)) \<and>
     ((\<forall>call. raises ctx call = None) \<longrightarrow> cam_position \<noteq> obj_position \<longrightarrow>
        fst (execute self ctx s) = FINISHED) \<and>
     (execute self ctx s = (FINISHED, s') \<longrightarrow>
        length (objects s') = length (objects s1) + 3 \<and>
        (\<forall>lamp \<in> set (drop (length (objects s1)) (objects s')).
           let l = o_location lamp;
               off = sqrt ((vec_x l - vec_x obj_position)\<^sup>2 + (vec_y l - vec_y obj_position)\<^sup>2);
               len = sqrt ((vec_x cam_position - vec_x obj_position)\<^sup>2 +
                           (vec_y cam_position - vec_y obj_position)\<^sup>2 +
                           (vec_z cam_position - vec_z obj_position)\<^sup>2);
               dx = (vec_x cam_position - vec_x obj_position) / len;
               dy = (vec_y cam_position - vec_y obj_position) / len
           in off = distance self * sqrt (dx\<^sup>2 + dy\<^sup>2) \<and>
              off \<le> distance self \<and>
              (vec_z cam_position \<noteq> vec_z obj_position \<longrightarrow> off < distance self) \<and>
              (vec_x cam_position = vec_x obj_position \<and> vec_y cam_position = vec_y obj_position \<longrightarrow>
                 vec_x l = vec_x obj_position \<and> vec_y l = vec_y obj_position) \<and>
              vec_z l = height self))"
proof -
  let ?len = "sqrt ((vec_x cam_position - vec_x obj_position)\<^sup>2 +
             (vec_y cam_position - vec_y obj_position)\<^sup>2 +
             (vec_z cam_position - vec_z obj_position)\<^sup>2)"
  have len: "?len = vector_length (vec_sub cam_position obj_position)"
    by (simp add: vector_length_def vec_sub_def)
  have z: "(?len = 0) = (cam_position = obj_position)"
    unfolding len by (rule vector_length_zero)
  have one: "(execute self ctx s =
         (CANCELLED,
          s1\<lparr>reports := reports s1 @
                [(''WARNING'', ''Operation Cancelled. No viable object in the scene'')]\<rparr>)) =
      (?len = 0)"
    using degenerate_execute [OF assms(1-4), of self] assms(5,6) z by simp
  have three: "fst (execute self ctx s) = FINISHED"
    if "\<forall>call. raises ctx call = None" "cam_position \<noteq> obj_position"
  proof -
    from that(2) have "vector_length (vec_sub cam_position obj_position) \<noteq> 0"
      by (simp add: vector_length_zero)
    from place_lamps_ok [OF this, of ctx self obj s1] that(1) show ?thesis
      by (simp add: execute_after_camera [OF assms(1-4)] assms(5,6))
  qed
  have four: "length (objects s') = length (objects s1) + 3 \<and>
        (\<forall>lamp \<in> set (drop (length (objects s1)) (objects s')).
           let l = o_location lamp;
               off = sqrt ((vec_x l - vec_x obj_position)\<^sup>2 + (vec_y l - vec_y obj_position)\<^sup>2);
               len = ?len;
               dx = (vec_x cam_position - vec_x obj_position) / len;
               dy = (vec_y cam_position - vec_y obj_position) / len
           in off = distance self * sqrt (dx\<^sup>2 + dy\<^sup>2) \<and>
              off \<le> distance self \<and>
              (vec_z cam_position \<noteq> vec_z obj_position \<longrightarrow> off < distance self) \<and>
              (vec_x cam_position = vec_x obj_position \<and> vec_y cam_position = vec_y obj_position \<longrightarrow>
                 vec_x l = vec_x obj_position \<and> vec_y l = vec_y obj_position) \<and>
              vec_z l = height self)"
    if fin: "execute self ctx s = (FINISHED, s')"
  proof -
    from fin have p: "place_lamps ctx self obj obj_position cam_position s1 = (Inr FINISHED, s')"
      by (auto simp: execute_after_camera [OF assms(1-4)] assms(5,6) split: prod.splits sum.splits)
    note nz = place_lamps_FINISHED(1) [OF p]
    note s' = place_lamps_FINISHED(2) [OF p]
    from assms(7) have dist: "0 < distance self" by simp
    let ?d = "single_vector_of obj_position cam_position"
    have dx: "vec_x ?d = (vec_x cam_position - vec_x obj_position) / ?len"
      and dy: "vec_y ?d = (vec_y cam_position - vec_y obj_position) / ?len"
      by (simp_all add: single_vector_of_def vec_scale_def vec_sub_def vector_length_def)
    have ok: "let l = lamp_location self angle ?d obj_position;
               off = sqrt ((vec_x l - vec_x obj_position)\<^sup>2 + (vec_y l - vec_y obj_position)\<^sup>2);
               len = ?len;
               dx = (vec_x cam_position - vec_x obj_position) / len;
               dy = (vec_y cam_position - vec_y obj_position) / len
           in off = distance self * sqrt (dx\<^sup>2 + dy\<^sup>2) \<and>
              off \<le> distance self \<and>
              (vec_z cam_position \<noteq> vec_z obj_position \<longrightarrow> off < distance self) \<and>
              (vec_x cam_position = vec_x obj_position \<and> vec_y cam_position = vec_y obj_position \<longrightarrow>
                 vec_x l = vec_x obj_position \<and> vec_y l = vec_y obj_position) \<and>
              vec_z l = height self" for angle
      unfolding Let_def
      using lamp_offset [OF nz dist, of angle]
      by (simp only: dx dy) blast
    have objs: "objects s' = objects s1 @
       [lamp_object ''TriLamp-Back'' (length (lights s1))
          (lamp_location self (of_int (backangle self)) ?d obj_position) [track_to obj],
        lamp_object ''TriLamp-Fill'' (length (lights s1) + 1)
          (lamp_location self (of_int (rightangle self)) ?d obj_position) [track_to obj],
        lamp_object ''TriLamp-Key'' (length (lights s1) + 2)
          (lamp_location self (of_int (- leftangle self)) ?d obj_position) [track_to obj]]"
      by (simp add: s' lamps_state_def Let_def)
    have loc: "o_location (lamp_object n d v cs) = v" for n d v cs
      by (simp add: lamp_object_def)
    show ?thesis
      unfolding objs using ok [of "of_int (backangle self)"] ok [of "of_int (rightangle self)"]
        ok [of "of_int (- leftangle self)"]
      by (simp add: loc)
  qed
  from one z three four show ?thesis by blast
qed

theorem camera_above_object_witness:
  "get_camera view3d_context (scene_with_camera overhead) = (Inr 1, scene_with_camera overhead) \<and>
   active view3d_context = Some 0 \<and>
   0 < length (objects (scene_with_camera overhead)) \<and>
   1 < length (objects (scene_with_camera overhead)) \<and>
   o_location (objects (scene_with_camera overhead) ! 0) = origin \<and>
   o_location (objects (scene_with_camera overhead) ! 1) = overhead \<and>
   1 / 10 \<le> distance defaults \<and>
   overhead \<noteq> origin \<and> vec_x overhead = vec_x origin \<and> vec_y overhead = vec_y origin \<and>
   execute defaults view3d_context (scene_with_camera overhead) =
     (FINISHED, lamps_state defaults 0 origin overhead (scene_with_camera overhead)) \<and>
   execute defaults view3d_context (scene_with_camera overhead) \<noteq>
     (CANCELLED,
      (scene_with_camera overhead)\<lparr>reports := reports (scene_with_camera overhead) @
         [(''WARNING'', ''Operation Cancelled. No viable object in the scene'')]\<rparr>) \<and>
   length (objects (lamps_state defaults 0 origin overhead (scene_with_camera overhead))) = 5 \<and>
   list_all (\<lambda>lamp. o_location lamp = \<lparr>vec_x = 0, vec_y = 0, vec_z = 5\<rparr>)
     (drop 2 (objects (lamps_state defaults 0 origin overhead (scene_with_camera overhead))))"
proof -
  let ?s = "scene_with_camera overhead"
  let ?S = "lamps_state defaults 0 origin overhead ?s"
  have c: "get_camera view3d_context ?s = (Inr 1, ?s)"
    by (rule example_camera)
  have a: "active view3d_context = Some 0"
    by (simp add: view3d_context_def)
  have n: "0 < length (objects ?s)" "1 < length (objects ?s)" "length (objects ?s) = 2"
    by (simp_all add: scene_with_camera_def)
  have o: "o_location (objects ?s ! 0) = origin" "o_location (objects ?s ! 1) = overhead"
    by (simp_all add: scene_with_camera_def cube_def camera_object_def)
  have d: "1 / 10 \<le> distance defaults"
    by (simp add: defaults_def)
  have v: "overhead \<noteq> origin" "vec_x overhead = vec_x origin" "vec_y overhead = vec_y origin"
    "vec_z overhead \<noteq> vec_z origin" "vec_x origin = 0" "vec_y origin = 0" "height defaults = 5"
    by (simp_all add: overhead_def origin_def defaults_def)
  note e = overhead_execute [of defaults]
  note t = camera_above_object [OF c a n(1,2) o d, of "?S"]
  from t v(1) have x: "execute defaults view3d_context ?s \<noteq>
     (CANCELLED, ?s\<lparr>reports := reports ?s @
         [(''WARNING'', ''Operation Cancelled. No viable object in the scene'')]\<rparr>)"
    by simp
  from t e have len: "length (objects ?S) = 5"
    by (simp add: n(3))
  from t e have "\<forall>lamp \<in> set (drop 2 (objects ?S)).
      vec_x (o_location lamp) = 0 \<and> vec_y (o_location lamp) = 0 \<and> vec_z (o_location lamp) = 5"
    by (simp add: n(3) v Let_def)
  then have l: "list_all (\<lambda>lamp. o_location lamp = \<lparr>vec_x = 0, vec_y = 0, vec_z = 5\<rparr>)
     (drop 2 (objects ?S))"
    by (auto simp: list_all_iff intro: vector.equality)
  from c a n(1,2) o d v(1-3) e x len l show ?thesis
    by (intro conjI)
qed

end
